theory Spec2Isabelle
  imports Complex_Main
begin

section \<open>Python values, exceptions and the outside world\<close>

text \<open>
  The module \<^verbatim>\<open>add_gsi.py\<close> talks to three outside parties: the DynamoDB client
  (\<^verbatim>\<open>describe_table\<close>, \<^verbatim>\<open>update_table\<close>), the clock (\<^verbatim>\<open>time.sleep\<close>, the Lambda
  context's remaining time) and the HTTP endpoint of CloudFormation (\<^verbatim>\<open>urlopen\<close>).
  The values that travel are the JSON-like Python values below. A dictionary is kept as
  the list of its items (keys are strings and pairwise different in Python; a lookup
  takes the first item with the key).
\<close>

datatype py =
    PNone
  | PBool bool
  | PInt int
  | PStr string
  | PList "py list"
  | PDict "(string \<times> py) list"

text \<open>
  An exception is its class name and the text that \<^verbatim>\<open>str(e)\<close> gives. Every exception of
  the model is a subclass of \<^verbatim>\<open>Exception\<close>, so \<^verbatim>\<open>except Exception\<close> and a bare
  \<^verbatim>\<open>except:\<close> catch the same ones.
\<close>

datatype py_exn = PyExn (exn_class: string) (exn_str: string)

text \<open>The request object built by \<^verbatim>\<open>urllib.request.Request\<close> in \<^verbatim>\<open>send_response\<close>.\<close>

record request =
  url :: py
  "method" :: string
  data :: string
  headers :: "(string \<times> py) list"

text \<open>
  The calls that leave the process, in the order they are made. Calls to the logger are
  not recorded: they do not change the control flow, except where evaluating the logged
  expression raises (line 54), which is modelled.
\<close>

datatype event =
    Sleep int
  | DescribeTable py
  | UpdateTable py
  | UrlOpen request

text \<open>
  The outcome of a call: the exception raised or the value returned, and the history of
  outside calls so far.
\<close>

type_synonym 'a outcome = "(py_exn + 'a) \<times> event list"

text \<open>
  The environment: the three environment variables read at import time (\<^verbatim>\<open>None\<close> when
  unset), the answers of the outside parties as functions of the call's argument and of
  the history so far, and the library functions \<^verbatim>\<open>json.dumps(...).encode()\<close> and the
  validation done by the constructor \<^verbatim>\<open>urllib.request.Request\<close> (the exception it
  raises for this URL, if any), which are not code of this module. The last member is
  the floating-point arithmetic of the runtime: what
  \<^verbatim>\<open>math.floor(wait_seconds ** (retry / wait_seconds))\<close> evaluates to for the two
  integers (see \<open>exp_wait\<close> below).
\<close>

record env =
  TABLE_NAME :: py
  GSI_1 :: py
  GSI_2 :: py
  describe_table :: "py \<Rightarrow> event list \<Rightarrow> py_exn + py"
  update_table :: "py \<Rightarrow> event list \<Rightarrow> py_exn + py"
  urlopen :: "request \<Rightarrow> event list \<Rightarrow> py_exn + py"
  dumps_encode :: "py \<Rightarrow> string"
  Request_init :: "py \<Rightarrow> py_exn option"
  float_floor_pow :: "int \<Rightarrow> int \<Rightarrow> py_exn + int"

text \<open>
  The Lambda context object (\<^verbatim>\<open>context\<close> in the source): the two members the module
  uses. The remaining time is a function of the history, so it may shrink with every
  sleep and call.
\<close>

record lambda_context =
  log_stream_name :: string
  get_remaining_time_in_millis :: "event list \<Rightarrow> int"

subsection \<open>The Python operators used on values\<close>

definition type_name :: "py \<Rightarrow> string" where
  "type_name v = (case v of PNone \<Rightarrow> ''NoneType'' | PBool _ \<Rightarrow> ''bool'' | PInt _ \<Rightarrow> ''int''
     | PStr _ \<Rightarrow> ''str'' | PList _ \<Rightarrow> ''list'' | PDict _ \<Rightarrow> ''dict'')"

definition KeyError :: "string \<Rightarrow> py_exn" where
  "KeyError k = PyExn ''KeyError'' ([CHR 0x27] @ k @ [CHR 0x27])"

definition TypeError :: "string \<Rightarrow> py_exn" where
  "TypeError m = PyExn ''TypeError'' m"

text \<open>\<^verbatim>\<open>sub in s\<close> on two strings: \<^verbatim>\<open>sub\<close> occurs in \<^verbatim>\<open>s\<close> as a contiguous piece.\<close>

fun starts_with :: "string \<Rightarrow> string \<Rightarrow> bool" where
  "starts_with [] s = True"
| "starts_with (c # cs) [] = False"
| "starts_with (c # cs) (d # ds) = (c = d \<and> starts_with cs ds)"

fun str_contains :: "string \<Rightarrow> string \<Rightarrow> bool" where
  "str_contains sub [] = (sub = [])"
| "str_contains sub (d # ds) = (starts_with sub (d # ds) \<or> str_contains sub ds)"

text \<open>\<^verbatim>\<open>v[k]\<close> with a string key \<^verbatim>\<open>k\<close>.\<close>

definition py_getitem :: "py \<Rightarrow> string \<Rightarrow> py_exn + py" where
  "py_getitem v k =
     (case v of
        PDict items \<Rightarrow> (case map_of items k of Some x \<Rightarrow> Inr x | None \<Rightarrow> Inl (KeyError k))
      | PStr _ \<Rightarrow> Inl (TypeError ''string indices must be integers'')
      | PList _ \<Rightarrow> Inl (TypeError ''list indices must be integers or slices, not str'')
      | _ \<Rightarrow> Inl (TypeError ([CHR 0x27] @ type_name v @ ''' object is not subscriptable'')))"

text \<open>\<^verbatim>\<open>k in v\<close> with a string \<^verbatim>\<open>k\<close>.\<close>

definition py_in :: "string \<Rightarrow> py \<Rightarrow> py_exn + bool" where
  "py_in k v =
     (case v of
        PDict items \<Rightarrow> Inr (k \<in> set (map fst items))
      | PStr s \<Rightarrow> Inr (str_contains k s)
      | PList xs \<Rightarrow> Inr (PStr k \<in> set xs)
      | _ \<Rightarrow> Inl (TypeError (''argument of type '' @ [CHR 0x27] @ type_name v @ ''' is not iterable'')))"

text \<open>The items that \<^verbatim>\<open>for n in v\<close> visits.\<close>

definition py_iter :: "py \<Rightarrow> py_exn + py list" where
  "py_iter v =
     (case v of
        PList xs \<Rightarrow> Inr xs
      | PDict items \<Rightarrow> Inr (map (\<lambda>kv. PStr (fst kv)) items)
      | PStr s \<Rightarrow> Inr (map (\<lambda>c. PStr [c]) s)
      | _ \<Rightarrow> Inl (TypeError ([CHR 0x27] @ type_name v @ ''' object is not iterable'')))"

text \<open>A list comprehension whose element expression may raise: the first raise wins.\<close>

fun comprehension :: "('a \<Rightarrow> py_exn + 'b) \<Rightarrow> 'a list \<Rightarrow> py_exn + 'b list" where
  "comprehension f [] = Inr []"
| "comprehension f (x # xs) =
     (case f x of
        Inl e \<Rightarrow> Inl e
      | Inr y \<Rightarrow> (case comprehension f xs of Inl e \<Rightarrow> Inl e | Inr ys \<Rightarrow> Inr (y # ys)))"

text \<open>\<^verbatim>\<open>time.sleep(secs)\<close> refuses a negative length.\<close>

definition sleep :: "int \<Rightarrow> event list \<Rightarrow> py outcome" where
  "sleep secs h =
     (if secs < 0 then (Inl (PyExn ''ValueError'' ''sleep length must be non-negative''), h)
      else (Inr PNone, h @ [Sleep secs]))"

section \<open>The status checks\<close>

text \<open>
  \<^verbatim>\<open>check_table_status\<close>, lines 42 to 55. The call of \<^verbatim>\<open>describe_table\<close> is outside the
  \<^verbatim>\<open>try\<close>. Inside it, \<^verbatim>\<open>table_status\<close> is bound only when both subscripts succeed; line 54
  then reads \<^verbatim>\<open>table_status\<close> after the \<^verbatim>\<open>try\<close> statement, whichever branch ran.
\<close>

definition read_table_status :: "py \<Rightarrow> py_exn + py" where
  "read_table_status response =
     (case py_getitem response ''Table'' of
        Inl e \<Rightarrow> Inl e
      | Inr t \<Rightarrow> py_getitem t ''TableStatus'')"

definition check_table_status :: "env \<Rightarrow> py \<Rightarrow> event list \<Rightarrow> bool outcome" where
  "check_table_status env tablename h =
     (let h1 = h @ [DescribeTable tablename] in
      case describe_table env tablename h of
        Inl e \<Rightarrow> (Inl e, h1)
      | Inr response \<Rightarrow>
          (let (table_status, table_active) =
                 (case read_table_status response of
                    Inr status \<Rightarrow> (Some status, if status = PStr ''ACTIVE'' then True else False)
                  | Inl _ \<Rightarrow> (None, True))
           in case table_status of
                None \<Rightarrow>
                  (Inl (PyExn ''UnboundLocalError''
                     ''local variable 'table_status' referenced before assignment''), h1)
              | Some _ \<Rightarrow> (Inr table_active, h1)))"

text \<open>
  \<^verbatim>\<open>check_gsi_status\<close>, lines 67 to 83: the body of the \<^verbatim>\<open>try\<close> first, then the
  function, whose \<^verbatim>\<open>except\<close> branch answers \<^verbatim>\<open>True\<close>.
\<close>

definition read_gsi_status :: "py \<Rightarrow> py_exn + bool" where
  "read_gsi_status response =
     (case py_getitem response ''Table'' of
        Inl e \<Rightarrow> Inl e
      | Inr t \<Rightarrow>
          (case py_in ''GlobalSecondaryIndexes'' t of
             Inl e \<Rightarrow> Inl e
           | Inr present \<Rightarrow>
               if present then
                 (case py_getitem t ''GlobalSecondaryIndexes'' of
                    Inl e \<Rightarrow> Inl e
                  | Inr gsis \<Rightarrow>
                      (case py_iter gsis of
                         Inl e \<Rightarrow> Inl e
                       | Inr ns \<Rightarrow>
                           (case comprehension (\<lambda>n. py_getitem n ''IndexStatus'') ns of
                              Inl e \<Rightarrow> Inl e
                            | Inr GSIs \<Rightarrow>
                                Inr (if list_all (\<lambda>n. n = PStr ''ACTIVE'') GSIs
                                     then True else False))))
               else Inr True))"

definition check_gsi_status :: "env \<Rightarrow> py \<Rightarrow> event list \<Rightarrow> bool outcome" where
  "check_gsi_status env tablename h =
     (let h1 = h @ [DescribeTable tablename] in
      case describe_table env tablename h of
        Inl e \<Rightarrow> (Inl e, h1)
      | Inr response \<Rightarrow>
          (case read_gsi_status response of
             Inr gsi_active \<Rightarrow> (Inr gsi_active, h1)
           | Inl _ \<Rightarrow> (Inr True, h1)))"

section \<open>The readiness wait\<close>

text \<open>
  Lines 102 to 104, the same in both loops of \<^verbatim>\<open>table_active_wait\<close>: the retry count is
  capped, then the wait is \<^verbatim>\<open>math.floor(wait_seconds ** (retry / wait_seconds))\<close>.
\<close>

definition cap_retry :: "int \<Rightarrow> int \<Rightarrow> int" where
  "cap_retry wait_seconds retry = (if retry > wait_seconds then wait_seconds else retry)"

text \<open>
  The quotient is Python's true division of two integers and the power is taken on
  double-precision floats (the base is converted, then the C library's \<^verbatim>\<open>pow\<close> is
  called), so the wait is the floor of the exact power only up to rounding. An integer
  converts to a float when it rounds to a number below \<open>2 ^ 1024\<close>, that is, when its
  absolute value is below \<open>2 ^ 1024 - 2 ^ 970\<close>, and without rounding when its absolute
  value is at most \<open>2 ^ 53\<close>.
\<close>

definition float_limit :: int where
  "float_limit = 2 ^ 1024 - 2 ^ 970"

definition float_exact :: int where
  "float_exact = 2 ^ 53"

text \<open>
  For a positive base and an exponent between 0 and 1, rounding the quotient, the base
  and the power to 53 binary digits moves the result by less than the fraction
  \<open>1 / 2 ^ 40\<close> of the exact power \<open>x\<close>. The model takes the runtime's answer when it is
  the floor of a number that close to \<open>x\<close>, and the floor of \<open>x\<close> itself when the
  parameter holds anything else.
\<close>

definition float_tolerance :: real where
  "float_tolerance = 1 / 2 ^ 40"

definition float_floor :: "real \<Rightarrow> py_exn + int \<Rightarrow> int" where
  "float_floor x answer =
     (case answer of
        Inr w \<Rightarrow>
          if \<lfloor>x * (1 - float_tolerance)\<rfloor> \<le> w \<and> w \<le> \<lfloor>x * (1 + float_tolerance)\<rfloor> then w
          else \<lfloor>x\<rfloor>
      | Inl e \<Rightarrow> \<lfloor>x\<rfloor>)"

text \<open>
  Line 104. What does not depend on rounding is written out: a zero \<^verbatim>\<open>wait_seconds\<close>
  raises in the division; a base that does not convert to a float raises
  \<^verbatim>\<open>OverflowError\<close> in the power, the quotient of a retry count that is no larger than
  the base having been computed without error; the exponent \<^verbatim>\<open>0.0\<close> gives \<^verbatim>\<open>1.0\<close>; the
  exponent \<^verbatim>\<open>1.0\<close> gives the base, which is the integer itself up to \<open>2 ^ 53\<close>. For a
  retry count between 0 and a positive \<^verbatim>\<open>wait_seconds\<close> the answer of the runtime is taken
  within the rounding. The loops pass no other arguments (the retry count is capped
  first); for those the answer of the runtime is taken as it is.
\<close>

definition exp_wait :: "env \<Rightarrow> int \<Rightarrow> int \<Rightarrow> py_exn + int" where
  "exp_wait env wait_seconds retry =
     (if wait_seconds = 0 then Inl (PyExn ''ZeroDivisionError'' ''division by zero'')
      else if float_limit \<le> \<bar>wait_seconds\<bar> \<and> \<bar>retry\<bar> \<le> \<bar>wait_seconds\<bar> then
        Inl (PyExn ''OverflowError'' ''int too large to convert to float'')
      else if retry = 0 then Inr 1
      else if retry = wait_seconds \<and> \<bar>wait_seconds\<bar> \<le> float_exact then Inr wait_seconds
      else if 0 < retry \<and> retry \<le> wait_seconds then
        Inr (float_floor
               (real_of_int wait_seconds powr (real_of_int retry / real_of_int wait_seconds))
               (float_floor_pow env wait_seconds retry))
      else float_floor_pow env wait_seconds retry)"

text \<open>
  One \<^verbatim>\<open>while\<close> loop of \<^verbatim>\<open>table_active_wait\<close> (lines 101 to 109, and again lines 115 to
  123 with the other check): \<^verbatim>\<open>active\<close> and \<^verbatim>\<open>retry\<close> are the loop's two variables. The loop
  has no bound of its own, so it is a partial function: \<open>None\<close> is the run that never
  leaves the loop.
\<close>

partial_function (option) wait_loop ::
  "env \<Rightarrow> (py \<Rightarrow> event list \<Rightarrow> bool outcome) \<Rightarrow> py \<Rightarrow> int \<Rightarrow> bool \<Rightarrow> int \<Rightarrow> event list
     \<Rightarrow> unit outcome option" where
  "wait_loop env check table_name wait_seconds active retry h =
     (if \<not> active then
        (case exp_wait env wait_seconds (cap_retry wait_seconds retry) of
           Inl e \<Rightarrow> Some (Inl e, h)
         | Inr w \<Rightarrow>
             (case sleep w h of
                (Inl e, h1) \<Rightarrow> Some (Inl e, h1)
              | (Inr _, h1) \<Rightarrow>
                  (case check table_name h1 of
                     (Inl e, h2) \<Rightarrow> Some (Inl e, h2)
                   | (Inr a, h2) \<Rightarrow>
                       wait_loop env check table_name wait_seconds a
                         (cap_retry wait_seconds retry + 1) h2)))
      else Some (Inr (), h))"

definition table_active_wait :: "env \<Rightarrow> py \<Rightarrow> int \<Rightarrow> event list \<Rightarrow> py outcome option" where
  "table_active_wait env table_name wait_seconds h =
     (case wait_loop env (check_table_status env) table_name wait_seconds False 0 h of
        None \<Rightarrow> None
      | Some (Inl e, h1) \<Rightarrow> Some (Inl e, h1)
      | Some (Inr _, h1) \<Rightarrow>
          (case wait_loop env (check_gsi_status env) table_name wait_seconds False 0 h1 of
             None \<Rightarrow> None
           | Some (Inl e, h2) \<Rightarrow> Some (Inl e, h2)
           | Some (Inr _, h2) \<Rightarrow> Some (Inr PNone, h2)))"

section \<open>The retry wrapper and the two creations\<close>

text \<open>
  The loop of \<^verbatim>\<open>wrapper\<close> inside \<^verbatim>\<open>function_retry\<close>, lines 145 to 160, with \<^verbatim>\<open>retry\<close> as
  its variable. Falling out of the loop returns \<^verbatim>\<open>None\<close>.
\<close>

function wrapper_loop ::
  "(event list \<Rightarrow> py outcome) \<Rightarrow> lambda_context \<Rightarrow> int \<Rightarrow> int \<Rightarrow> int \<Rightarrow> event list
     \<Rightarrow> py outcome" where
  "wrapper_loop fn ctx num_retries wait_seconds retry h =
     (if retry \<le> num_retries then
        if get_remaining_time_in_millis ctx h \<le> 10000 then
          (Inl (PyExn ''Exception'' ''Function was about to timeout''), h)
        else
          (case fn h of
             (Inr v, h1) \<Rightarrow> (Inr v, h1)
           | (Inl e, h1) \<Rightarrow>
               if str_contains ''already exists'' (exn_str e) then (Inr PNone, h1)
               else
                 (case sleep wait_seconds h1 of
                    (Inl e', h2) \<Rightarrow> (Inl e', h2)
                  | (Inr _, h2) \<Rightarrow>
                      wrapper_loop fn ctx num_retries wait_seconds (retry + 1) h2))
      else (Inr PNone, h))"
  by pat_completeness auto
termination
  by (relation "measure (\<lambda>(fn, ctx, num_retries, wait_seconds, retry, h).
        nat (num_retries + 1 - retry))") auto

declare wrapper_loop.simps [simp del]

definition function_retry ::
  "(event list \<Rightarrow> py outcome) \<Rightarrow> lambda_context \<Rightarrow> int \<Rightarrow> int \<Rightarrow> event list \<Rightarrow> py outcome" where
  "function_retry fn ctx num_retries wait_seconds h =
     wrapper_loop fn ctx num_retries wait_seconds 0 h"

text \<open>The keyword arguments of the two \<^verbatim>\<open>update_table\<close> calls, lines 176 to 210 and 229 to 271.\<close>

definition attribute :: "string \<Rightarrow> py" where
  "attribute name = PDict [(''AttributeName'', PStr name), (''AttributeType'', PStr ''N'')]"

definition key_element :: "string \<Rightarrow> string \<Rightarrow> py" where
  "key_element name key_type = PDict [(''AttributeName'', PStr name), (''KeyType'', PStr key_type)]"

definition create_index :: "py \<Rightarrow> py list \<Rightarrow> py" where
  "create_index index_name key_schema =
     PDict [(''Create'', PDict
       [(''IndexName'', index_name),
        (''KeySchema'', PList key_schema),
        (''Projection'', PDict
           [(''ProjectionType'', PStr ''INCLUDE''),
            (''NonKeyAttributes'', PList [PStr ''primary''])]),
        (''ProvisionedThroughput'', PDict
           [(''ReadCapacityUnits'', PInt 5), (''WriteCapacityUnits'', PInt 5)])])]"

definition gsi_1_update :: "env \<Rightarrow> py" where
  "gsi_1_update env =
     PDict [(''AttributeDefinitions'', PList [attribute ''primary'', attribute ''gsikey'']),
            (''TableName'', TABLE_NAME env),
            (''GlobalSecondaryIndexUpdates'',
               PList [create_index (GSI_1 env) [key_element ''gsikey'' ''HASH'']])]"

definition gsi_2_update :: "env \<Rightarrow> py" where
  "gsi_2_update env =
     PDict [(''AttributeDefinitions'',
               PList [attribute ''primary'', attribute ''gsikey'', attribute ''gsisortkey'']),
            (''TableName'', TABLE_NAME env),
            (''GlobalSecondaryIndexUpdates'',
               PList [create_index (GSI_2 env)
                        [key_element ''gsikey'' ''HASH'', key_element ''gsisortkey'' ''RANGE'']])]"

text \<open>
  The bodies of \<^verbatim>\<open>create_gsi_1\<close> and \<^verbatim>\<open>create_gsi_2\<close> (lines 174 to 214, 227 to 275): one
  \<^verbatim>\<open>update_table\<close> call, whose exception is raised again; the response is dropped.
\<close>

definition update_call :: "env \<Rightarrow> py \<Rightarrow> event list \<Rightarrow> py outcome" where
  "update_call env kwargs h =
     (case update_table env kwargs h of
        Inl e \<Rightarrow> (Inl e, h @ [UpdateTable kwargs])
      | Inr response \<Rightarrow> (Inr PNone, h @ [UpdateTable kwargs]))"

definition create_gsi_1_body :: "env \<Rightarrow> event list \<Rightarrow> py outcome" where
  "create_gsi_1_body env h = update_call env (gsi_1_update env) h"

definition create_gsi_2_body :: "env \<Rightarrow> event list \<Rightarrow> py outcome" where
  "create_gsi_2_body env h = update_call env (gsi_2_update env) h"

text \<open>The decorated functions, as \<^verbatim>\<open>@function_retry\<close> leaves them.\<close>

definition create_gsi_1 ::
  "env \<Rightarrow> lambda_context \<Rightarrow> int \<Rightarrow> int \<Rightarrow> event list \<Rightarrow> py outcome" where
  "create_gsi_1 env ctx num_retries wait_seconds h =
     function_retry (create_gsi_1_body env) ctx num_retries wait_seconds h"

definition create_gsi_2 ::
  "env \<Rightarrow> lambda_context \<Rightarrow> int \<Rightarrow> int \<Rightarrow> event list \<Rightarrow> py outcome" where
  "create_gsi_2 env ctx num_retries wait_seconds h =
     function_retry (create_gsi_2_body env) ctx num_retries wait_seconds h"

section \<open>The notification\<close>

text \<open>
  \<^verbatim>\<open>send_response\<close>, lines 293 to 321. The dictionary display of line 296 evaluates its
  values in order, so a missing key of the event raises there; \<^verbatim>\<open>event['ResponseURL']\<close>
  and the constructor of the request come next, outside the \<^verbatim>\<open>try\<close>; only \<^verbatim>\<open>urlopen\<close> is
  inside it.
\<close>

definition default_reason :: "lambda_context \<Rightarrow> string" where
  "default_reason ctx = ''See the details in CloudWatch Log Stream: '' @ log_stream_name ctx"

definition response_dict :: "lambda_context \<Rightarrow> string \<Rightarrow> string \<Rightarrow> py \<Rightarrow> py \<Rightarrow> py \<Rightarrow> py" where
  "response_dict ctx status reason stack_id request_id logical_resource_id =
     PDict [(''Status'', PStr status),
            (''Reason'', PStr reason),
            (''PhysicalResourceId'', PStr (log_stream_name ctx)),
            (''StackId'', stack_id),
            (''RequestId'', request_id),
            (''LogicalResourceId'', logical_resource_id)]"

definition put_request :: "py \<Rightarrow> string \<Rightarrow> request" where
  "put_request response_url encoded_body =
     \<lparr>url = response_url, method = ''PUT'', data = encoded_body,
      headers = [(''content-type'', PStr []),
                 (''content-length'', PInt (int (length encoded_body)))]\<rparr>"

definition send_response ::
  "env \<Rightarrow> lambda_context \<Rightarrow> py \<Rightarrow> string \<Rightarrow> string option \<Rightarrow> event list \<Rightarrow> py outcome" where
  "send_response env ctx event status reason h =
     (let reason1 =
            (case reason of
               None \<Rightarrow> default_reason ctx
             | Some r \<Rightarrow> if r = [] then default_reason ctx else r)
      in case py_getitem event ''StackId'' of
           Inl e \<Rightarrow> (Inl e, h)
         | Inr stack_id \<Rightarrow>
        (case py_getitem event ''RequestId'' of
           Inl e \<Rightarrow> (Inl e, h)
         | Inr request_id \<Rightarrow>
        (case py_getitem event ''LogicalResourceId'' of
           Inl e \<Rightarrow> (Inl e, h)
         | Inr logical_resource_id \<Rightarrow>
        (let encoded_body = dumps_encode env
               (response_dict ctx status reason1 stack_id request_id logical_resource_id)
         in case py_getitem event ''ResponseURL'' of
           Inl e \<Rightarrow> (Inl e, h)
         | Inr response_url \<Rightarrow>
        (case Request_init env response_url of
           Some e \<Rightarrow> (Inl e, h)
         | None \<Rightarrow>
        (let request = put_request response_url encoded_body
         in case urlopen env request h of
              Inr _ \<Rightarrow> (Inr PNone, h @ [UrlOpen request])
            | Inl e \<Rightarrow> (Inr PNone, h @ [UrlOpen request])))))))"

section \<open>The handler\<close>

text \<open>
  \<^verbatim>\<open>lambda_handler\<close> in two parts: lines 340 to 351, the waits and the two creations with
  their default arguments, and lines 352 to 356, the notification with its fallback.
\<close>

definition add_indexes :: "env \<Rightarrow> lambda_context \<Rightarrow> event list \<Rightarrow> py outcome option" where
  "add_indexes env ctx h =
     (case table_active_wait env (TABLE_NAME env) 15 h of
        None \<Rightarrow> None
      | Some (Inl e, h1) \<Rightarrow> Some (Inl e, h1)
      | Some (Inr _, h1) \<Rightarrow>
     (case create_gsi_1 env ctx 5 30 h1 of
        (Inl e, h2) \<Rightarrow> Some (Inl e, h2)
      | (Inr _, h2) \<Rightarrow>
     (case table_active_wait env (TABLE_NAME env) 15 h2 of
        None \<Rightarrow> None
      | Some (Inl e, h3) \<Rightarrow> Some (Inl e, h3)
      | Some (Inr _, h3) \<Rightarrow>
     (case create_gsi_2 env ctx 5 30 h3 of
        (Inl e, h4) \<Rightarrow> Some (Inl e, h4)
      | (Inr _, h4) \<Rightarrow> table_active_wait env (TABLE_NAME env) 15 h4))))"

text \<open>
  Lines 352 to 356. A call of \<^verbatim>\<open>send_response\<close> that raises has submitted nothing, so
  the history of outside calls does not show that it was made. To count the calls, a
  call is recorded when it is made: \<open>send_response_call\<close> is \<^verbatim>\<open>send_response\<close> together
  with the list of the \<^verbatim>\<open>status\<close> arguments of the calls made so far, to which it adds
  its own.
\<close>

definition send_response_call ::
  "env \<Rightarrow> lambda_context \<Rightarrow> py \<Rightarrow> string \<Rightarrow> string option \<Rightarrow> event list \<Rightarrow> string list
     \<Rightarrow> py outcome \<times> string list" where
  "send_response_call env ctx event status reason h calls =
     (send_response env ctx event status reason h, calls @ [status])"

text \<open>
  The bare \<^verbatim>\<open>except:\<close> catches whatever the first call raises; what the second call
  raises leaves the handler. \<open>notify_attempts\<close> returns the outcome and the calls made.
\<close>

definition notify_attempts ::
  "env \<Rightarrow> lambda_context \<Rightarrow> py \<Rightarrow> event list \<Rightarrow> py outcome \<times> string list" where
  "notify_attempts env ctx event h =
     (case send_response_call env ctx event ''SUCCESS'' None h [] of
        ((Inr v, h1), calls) \<Rightarrow> ((Inr PNone, h1), calls)
      | ((Inl e, h1), calls) \<Rightarrow>
          (case send_response_call env ctx event ''FAILURE'' None h1 calls of
             ((Inr v, h2), calls') \<Rightarrow> ((Inr PNone, h2), calls')
           | ((Inl e', h2), calls') \<Rightarrow> ((Inl e', h2), calls')))"

definition notify :: "env \<Rightarrow> lambda_context \<Rightarrow> py \<Rightarrow> event list \<Rightarrow> py outcome" where
  "notify env ctx event h = fst (notify_attempts env ctx event h)"

definition lambda_handler :: "env \<Rightarrow> lambda_context \<Rightarrow> py \<Rightarrow> event list \<Rightarrow> py outcome option" where
  "lambda_handler env ctx event h =
     (case add_indexes env ctx h of
        None \<Rightarrow> None
      | Some (Inl e, h1) \<Rightarrow> Some (Inl e, h1)
      | Some (Inr _, h1) \<Rightarrow> Some (notify env ctx event h1))"

section \<open>Observations on histories, and a sample run\<close>



definition is_put :: "event \<Rightarrow> bool" where
  "is_put ev = (case ev of UrlOpen _ \<Rightarrow> True | _ \<Rightarrow> False)"

text \<open>The number of \<^verbatim>\<open>describe_table\<close> calls made so far.\<close>

definition polls :: "event list \<Rightarrow> nat" where
  "polls h = length (filter (\<lambda>ev. case ev of DescribeTable _ \<Rightarrow> True | _ \<Rightarrow> False) h)"

text \<open>
  A runtime for the sample world. In double precision \<^verbatim>\<open>18 / 27\<close> is the float just below
  two thirds and \<^verbatim>\<open>27 ** (18 / 27)\<close> is \<^verbatim>\<open>8.999999999999998\<close>, the float just below 9, so
  its floor is 8; in the same way \<^verbatim>\<open>216 ** (72 / 216)\<close> and \<^verbatim>\<open>216 ** (144 / 216)\<close> come out
  just below 6 and 36. Elsewhere this runtime answers the floor of the exact power.
\<close>

definition double_floor_pow :: "int \<Rightarrow> int \<Rightarrow> py_exn + int" where
  "double_floor_pow wait_seconds retry =
     (if wait_seconds = 27 \<and> retry = 18 then Inr 8
      else if wait_seconds = 216 \<and> retry = 72 then Inr 5
      else if wait_seconds = 216 \<and> retry = 144 then Inr 35
      else Inr \<lfloor>real_of_int wait_seconds powr (real_of_int retry / real_of_int wait_seconds)\<rfloor>)"

text \<open>
  A sample world for the concrete runs below: a table that is always ready, an
  \<^verbatim>\<open>update_table\<close> that succeeds, an endpoint that accepts the request, a stand-in for the
  JSON encoder that writes \<^verbatim>\<open>key=value;\<close> for each string item, the runtime above, and a
  context with five minutes left.
\<close>

definition table_response :: "string \<Rightarrow> py" where
  "table_response status =
     PDict [(''Table'', PDict [(''TableName'', PStr ''orders''), (''TableStatus'', PStr status)])]"

definition sample_env :: env where
  "sample_env =
     \<lparr>TABLE_NAME = PStr ''orders'', GSI_1 = PStr ''by_key'', GSI_2 = PStr ''by_key_sorted'',
      describe_table = (\<lambda>tablename h. Inr (table_response ''ACTIVE'')),
      update_table = (\<lambda>kwargs h. Inr (PDict [])),
      urlopen = (\<lambda>request h. Inr PNone),
      dumps_encode = (\<lambda>v. case v of
          PDict items \<Rightarrow>
            concat (map (\<lambda>kv. fst kv @ ''='' @ (case snd kv of PStr s \<Rightarrow> s | _ \<Rightarrow> ''?'') @ '';'')
                      items)
        | _ \<Rightarrow> ''?''),
      Request_init = (\<lambda>response_url. None),
      float_floor_pow = double_floor_pow\<rparr>"

definition sample_ctx :: lambda_context where
  "sample_ctx = \<lparr>log_stream_name = ''stream-1'', get_remaining_time_in_millis = (\<lambda>h. 300000)\<rparr>"

definition sample_event :: py where
  "sample_event =
     PDict [(''RequestType'', PStr ''Create''),
            (''ResponseURL'', PStr ''https://cfn.example/response''),
            (''StackId'', PStr ''stack-1''),
            (''RequestId'', PStr ''request-1''),
            (''LogicalResourceId'', PStr ''AddGsi'')]"

definition throttled :: py_exn where
  "throttled = PyExn ''ClientError'' ''Rate exceeded''"

definition index_exists :: py_exn where
  "index_exists = PyExn ''ClientError'' ''Index already exists: by_key''"

text \<open>A table that reports \<^verbatim>\<open>CREATING\<close> on its first two polls and \<^verbatim>\<open>ACTIVE\<close> from the third.\<close>

definition slow_table :: "py \<Rightarrow> event list \<Rightarrow> py_exn + py" where
  "slow_table tablename h =
     Inr (table_response (if polls h < 2 then ''CREATING'' else ''ACTIVE''))"


text \<open>An endpoint that cannot be reached.\<close>

definition unreachable :: py_exn where
  "unreachable = PyExn ''URLError'' ''<urlopen error timed out>''"

text \<open>
  What the sample run leaves behind: the outside calls of the three waits and the two
  creations, and the request that reports success.
\<close>

definition sample_history :: "event list" where
  "sample_history =
     [Sleep 1, DescribeTable (PStr ''orders''), Sleep 1, DescribeTable (PStr ''orders''),
      UpdateTable (gsi_1_update sample_env),
      Sleep 1, DescribeTable (PStr ''orders''), Sleep 1, DescribeTable (PStr ''orders''),
      UpdateTable (gsi_2_update sample_env),
      Sleep 1, DescribeTable (PStr ''orders''), Sleep 1, DescribeTable (PStr ''orders'')]"

definition sample_put :: request where
  "sample_put =
     \<lparr>url = PStr ''https://cfn.example/response'', method = ''PUT'',
      data = ''Status=SUCCESS;Reason=See the details in CloudWatch Log Stream: stream-1;PhysicalResourceId=stream-1;StackId=stack-1;RequestId=request-1;LogicalResourceId=AddGsi;'',
      headers = [(''content-type'', PStr []), (''content-length'', PInt 162)]\<rparr>"

section \<open>Facts about the model\<close>

subsection \<open>The backoff\<close>


lemma cap_retry_mono: "r1 \<le> r2 \<Longrightarrow> cap_retry ws r1 \<le> cap_retry ws r2"
  by (simp add: cap_retry_def)


lemma powr_ratio_mono:
  assumes "0 < ws" and "r1 \<le> r2"
  shows "real_of_int ws powr (real_of_int r1 / real_of_int ws)
       \<le> real_of_int ws powr (real_of_int r2 / real_of_int ws)"
proof -
  have "real_of_int r1 / real_of_int ws \<le> real_of_int r2 / real_of_int ws"
    using assms by (simp add: divide_right_mono)
  moreover have "1 \<le> real_of_int ws" using assms by simp
  ultimately show ?thesis by (rule powr_mono)
qed

text \<open>
  What the rounding leaves open: the wait lies between the floors of the exact power
  scaled down and scaled up by the tolerance, and is the floor of the exact power when
  these two agree. It is never negative.
\<close>

lemma float_tolerance_bounds: "0 < float_tolerance" "float_tolerance < 1"
  by (simp_all add: float_tolerance_def)

lemma float_floor_bounds:
  assumes "0 \<le> x"
  shows "\<lfloor>x * (1 - float_tolerance)\<rfloor> \<le> float_floor x answer"
    and "float_floor x answer \<le> \<lfloor>x * (1 + float_tolerance)\<rfloor>"
proof -
  have "x * (1 - float_tolerance) \<le> x" "x \<le> x * (1 + float_tolerance)"
    using assms float_tolerance_bounds by (simp_all add: algebra_simps)
  then have "\<lfloor>x * (1 - float_tolerance)\<rfloor> \<le> \<lfloor>x\<rfloor>" "\<lfloor>x\<rfloor> \<le> \<lfloor>x * (1 + float_tolerance)\<rfloor>"
    by (simp_all add: floor_mono)
  then show "\<lfloor>x * (1 - float_tolerance)\<rfloor> \<le> float_floor x answer"
    and "float_floor x answer \<le> \<lfloor>x * (1 + float_tolerance)\<rfloor>"
    by (simp_all add: float_floor_def split: sum.splits)
qed

lemma float_floor_nonneg: "0 \<le> x \<Longrightarrow> 0 \<le> float_floor x answer"
proof -
  assume x: "0 \<le> x"
  then have "0 \<le> x * (1 - float_tolerance)" using float_tolerance_bounds by simp
  then have "0 \<le> \<lfloor>x * (1 - float_tolerance)\<rfloor>" by simp
  then show ?thesis using float_floor_bounds(1) [OF x, of answer] by (rule order_trans)
qed

lemma float_floor_determined:
  assumes "0 \<le> x" and "real_of_int k \<le> x * (1 - float_tolerance)"
    and "x * (1 + float_tolerance) < real_of_int k + 1"
  shows "float_floor x answer = k"
proof -
  have "k \<le> \<lfloor>x * (1 - float_tolerance)\<rfloor>" using assms(2) by (simp add: le_floor_iff)
  moreover have "\<lfloor>x * (1 + float_tolerance)\<rfloor> \<le> k" using assms(3) by (simp add: floor_le_iff)
  ultimately show ?thesis
    using float_floor_bounds [OF assms(1), of answer] by simp
qed

lemma exp_wait_first:
  "wait_seconds \<noteq> 0 \<Longrightarrow> \<bar>wait_seconds\<bar> < float_limit \<Longrightarrow> exp_wait env wait_seconds 0 = Inr 1"
  by (simp add: exp_wait_def)

lemma exp_wait_last:
  "wait_seconds \<noteq> 0 \<Longrightarrow> \<bar>wait_seconds\<bar> \<le> float_exact \<Longrightarrow> exp_wait env wait_seconds wait_seconds = Inr wait_seconds"
  by (simp add: exp_wait_def float_exact_def float_limit_def)

lemma exp_wait_overflow:
  assumes "float_limit \<le> \<bar>wait_seconds\<bar>" and "\<bar>retry\<bar> \<le> \<bar>wait_seconds\<bar>"
  shows "exp_wait env wait_seconds retry =
           Inl (PyExn ''OverflowError'' ''int too large to convert to float'')"
proof -
  have "wait_seconds \<noteq> 0" using assms(1) by (auto simp add: float_limit_def)
  then show ?thesis using assms by (simp add: exp_wait_def)
qed

lemma exp_wait_between:
  assumes "0 < r" and "r \<le> ws" and "ws < float_limit" and "r = ws \<longrightarrow> float_exact < ws"
  shows "exp_wait env ws r =
           Inr (float_floor (real_of_int ws powr (real_of_int r / real_of_int ws))
                  (float_floor_pow env ws r))"
  using assms by (auto simp add: exp_wait_def)

lemma exp_wait_nonneg:
  assumes "0 < ws" and "ws < float_limit" and "0 \<le> r"
  shows "\<exists>w. exp_wait env ws (cap_retry ws r) = Inr w \<and> 0 \<le> w"
proof -
  let ?c = "cap_retry ws r"
  have c: "0 \<le> ?c" "?c \<le> ws" using assms by (simp_all add: cap_retry_def)
  show ?thesis
    using assms(1,2) c 
    by (auto simp add: exp_wait_def float_floor_nonneg)
qed

lemma exp_wait_rounded:
  assumes "0 < ws" and "ws < float_limit" and "0 \<le> r" and "r \<le> ws"
  shows "\<exists>w. exp_wait env ws r = Inr w
           \<and> \<lfloor>real_of_int ws powr (real_of_int r / real_of_int ws) * (1 - float_tolerance)\<rfloor> \<le> w
           \<and> w \<le> \<lfloor>real_of_int ws powr (real_of_int r / real_of_int ws) * (1 + float_tolerance)\<rfloor>"
proof -
  let ?x = "real_of_int ws powr (real_of_int r / real_of_int ws)"
  have x: "0 \<le> ?x" by simp
  consider "r = 0" | "r = ws" "ws \<le> float_exact" | "0 < r" "r = ws \<longrightarrow> float_exact < ws"
    using assms(3) by fastforce
  then show ?thesis
  proof cases
    case 1
    have "\<lfloor>1 - float_tolerance\<rfloor> \<le> 1" "1 \<le> \<lfloor>1 + float_tolerance\<rfloor>"
      using float_tolerance_bounds by (simp_all add: le_floor_iff floor_le_iff)
    then show ?thesis using 1 assms(1,2) by (simp add: exp_wait_first)
  next
    case 2
    have "real_of_int ws * (1 - float_tolerance) \<le> real_of_int ws"
      "real_of_int ws \<le> real_of_int ws * (1 + float_tolerance)"
      using assms(1) float_tolerance_bounds by (simp_all add: algebra_simps)
    then have "\<lfloor>real_of_int ws * (1 - float_tolerance)\<rfloor> \<le> ws"
      "ws \<le> \<lfloor>real_of_int ws * (1 + float_tolerance)\<rfloor>"
      by (simp_all add: le_floor_iff floor_le_iff)
    then show ?thesis using 2 assms(1,2) by (simp add: exp_wait_last)
  next
    case 3
    then show ?thesis
      using exp_wait_between [OF 3(1) assms(4,2) 3(2), of env] float_floor_bounds [OF x]
      by simp
  qed
qed


lemma exp_wait_eqI:
  assumes "0 < r" and "r < ws" and "ws < float_limit"
    and "real_of_int k \<le> real_of_int ws powr (real_of_int r / real_of_int ws) * (1 - float_tolerance)"
    and "real_of_int ws powr (real_of_int r / real_of_int ws) * (1 + float_tolerance) < real_of_int k + 1"
  shows "exp_wait env ws r = Inr k"
proof -
  have "exp_wait env ws r =
           Inr (float_floor (real_of_int ws powr (real_of_int r / real_of_int ws))
                  (float_floor_pow env ws r))"
    using assms(1-3) by (intro exp_wait_between) simp_all
  moreover have "float_floor (real_of_int ws powr (real_of_int r / real_of_int ws))
                  (float_floor_pow env ws r) = k"
    using assms(4,5) by (intro float_floor_determined) simp_all
  ultimately show ?thesis by simp
qed

text \<open>
  The root compared with a number, and its floor, without real powers: \<open>k\<close> is the
  floor of the root exactly when \<open>k ^ ws \<le> ws ^ r < (k + 1) ^ ws\<close>.
\<close>

lemma root_power:
  assumes "0 < ws" and "0 \<le> r"
  shows "(real_of_int ws powr (real_of_int r / real_of_int ws)) ^ nat ws = real_of_int ws ^ nat r"
proof -
  define x where "x = real_of_int ws powr (real_of_int r / real_of_int ws)"
  have "0 < x" using assms by (simp add: x_def)
  then have "x ^ nat ws = x powr real (nat ws)" by (simp add: powr_realpow)
  also have "\<dots> = real_of_int ws powr (real_of_int r / real_of_int ws * real_of_int ws)"
    using assms by (simp add: x_def powr_powr)
  also have "\<dots> = real_of_int ws powr real_of_int r" using assms by simp
  also have "\<dots> = real_of_int ws powr real (nat r)"
    using assms by (simp only: of_nat_nat)
  also have "\<dots> = real_of_int ws ^ nat r"
    using assms by (intro powr_realpow) simp
  finally show ?thesis by (simp add: x_def)
qed

lemma root_ge_iff:
  assumes "0 < ws" and "0 \<le> r" and "0 \<le> j"
  shows "j \<le> real_of_int ws powr (real_of_int r / real_of_int ws)
     \<longleftrightarrow> j ^ nat ws \<le> real_of_int ws ^ nat r"
proof -
  have "0 \<le> real_of_int ws powr (real_of_int r / real_of_int ws)" by simp
  moreover have "0 < nat ws" using assms by simp
  ultimately have "j \<le> real_of_int ws powr (real_of_int r / real_of_int ws)
     \<longleftrightarrow> j ^ nat ws \<le> (real_of_int ws powr (real_of_int r / real_of_int ws)) ^ nat ws"
    using assms(3) by (simp add: power_mono_iff)
  then show ?thesis using assms by (simp add: root_power)
qed

lemma root_le_iff:
  assumes "0 < ws" and "0 \<le> r" and "0 \<le> j"
  shows "real_of_int ws powr (real_of_int r / real_of_int ws) \<le> j
     \<longleftrightarrow> real_of_int ws ^ nat r \<le> j ^ nat ws"
proof -
  have "0 \<le> real_of_int ws powr (real_of_int r / real_of_int ws)" by simp
  moreover have "0 < nat ws" using assms by simp
  ultimately have "real_of_int ws powr (real_of_int r / real_of_int ws) \<le> j
     \<longleftrightarrow> (real_of_int ws powr (real_of_int r / real_of_int ws)) ^ nat ws \<le> j ^ nat ws"
    using assms(3) by (simp add: power_mono_iff)
  then show ?thesis using assms by (simp add: root_power)
qed


lemma root_between:
  assumes "0 < ws" and "0 \<le> r" and "0 \<le> a" and "0 < b" and "0 \<le> c"
    and "a ^ nat ws \<le> ws ^ nat r * b ^ nat ws"
    and "ws ^ nat r * b ^ nat ws \<le> c ^ nat ws"
  shows "real_of_int a / real_of_int b \<le> real_of_int ws powr (real_of_int r / real_of_int ws)
       \<and> real_of_int ws powr (real_of_int r / real_of_int ws) \<le> real_of_int c / real_of_int b"
proof -
  have b: "0 < real_of_int b ^ nat ws" using assms(4) by simp
  have "real_of_int (a ^ nat ws) \<le> real_of_int (ws ^ nat r * b ^ nat ws)"
    using assms(6) by (simp only: of_int_le_iff)
  then have "(real_of_int a / real_of_int b) ^ nat ws \<le> real_of_int ws ^ nat r"
    using b by (simp add: power_divide pos_divide_le_eq)
  moreover have "real_of_int (ws ^ nat r * b ^ nat ws) \<le> real_of_int (c ^ nat ws)"
    using assms(7) by (simp only: of_int_le_iff)
  then have "real_of_int ws ^ nat r \<le> (real_of_int c / real_of_int b) ^ nat ws"
    using b by (simp add: power_divide pos_le_divide_eq)
  ultimately show ?thesis
    using assms(1-5) by (simp add: root_ge_iff root_le_iff)
qed

text \<open>
  The waits for the default \<^verbatim>\<open>wait_seconds = 15\<close>, the only value \<^verbatim>\<open>lambda_handler\<close>
  uses. The first and the last power are the whole numbers 1 and 15, computed without
  rounding; each of the other fourteen lies at least \<open>1/25\<close> away from the whole numbers
  on both sides, so the rounding leaves its floor as it is: on every runtime the sixteen
  waits are the floors of the exact powers.
\<close>

lemma default_backoff_margin:
  shows "26 / 25 \<le> (15::real) powr (1 / 15) \<and> (15::real) powr (1 / 15) \<le> 49 / 25"
    and "26 / 25 \<le> (15::real) powr (2 / 15) \<and> (15::real) powr (2 / 15) \<le> 49 / 25"
    and "26 / 25 \<le> (15::real) powr (3 / 15) \<and> (15::real) powr (3 / 15) \<le> 49 / 25"
    and "51 / 25 \<le> (15::real) powr (4 / 15) \<and> (15::real) powr (4 / 15) \<le> 74 / 25"
    and "51 / 25 \<le> (15::real) powr (5 / 15) \<and> (15::real) powr (5 / 15) \<le> 74 / 25"
    and "51 / 25 \<le> (15::real) powr (6 / 15) \<and> (15::real) powr (6 / 15) \<le> 74 / 25"
    and "76 / 25 \<le> (15::real) powr (7 / 15) \<and> (15::real) powr (7 / 15) \<le> 99 / 25"
    and "101 / 25 \<le> (15::real) powr (8 / 15) \<and> (15::real) powr (8 / 15) \<le> 124 / 25"
    and "126 / 25 \<le> (15::real) powr (9 / 15) \<and> (15::real) powr (9 / 15) \<le> 149 / 25"
    and "151 / 25 \<le> (15::real) powr (10 / 15) \<and> (15::real) powr (10 / 15) \<le> 174 / 25"
    and "176 / 25 \<le> (15::real) powr (11 / 15) \<and> (15::real) powr (11 / 15) \<le> 199 / 25"
    and "201 / 25 \<le> (15::real) powr (12 / 15) \<and> (15::real) powr (12 / 15) \<le> 224 / 25"
    and "251 / 25 \<le> (15::real) powr (13 / 15) \<and> (15::real) powr (13 / 15) \<le> 274 / 25"
    and "301 / 25 \<le> (15::real) powr (14 / 15) \<and> (15::real) powr (14 / 15) \<le> 324 / 25"
proof -
  show "26 / 25 \<le> (15::real) powr (1 / 15) \<and> (15::real) powr (1 / 15) \<le> 49 / 25"
    using root_between [of 15 1 26 25 49] by simp
  show "26 / 25 \<le> (15::real) powr (2 / 15) \<and> (15::real) powr (2 / 15) \<le> 49 / 25"
    using root_between [of 15 2 26 25 49] by simp
  show "26 / 25 \<le> (15::real) powr (3 / 15) \<and> (15::real) powr (3 / 15) \<le> 49 / 25"
    using root_between [of 15 3 26 25 49] by simp
  show "51 / 25 \<le> (15::real) powr (4 / 15) \<and> (15::real) powr (4 / 15) \<le> 74 / 25"
    using root_between [of 15 4 51 25 74] by simp
  show "51 / 25 \<le> (15::real) powr (5 / 15) \<and> (15::real) powr (5 / 15) \<le> 74 / 25"
    using root_between [of 15 5 51 25 74] by simp
  show "51 / 25 \<le> (15::real) powr (6 / 15) \<and> (15::real) powr (6 / 15) \<le> 74 / 25"
    using root_between [of 15 6 51 25 74] by simp
  show "76 / 25 \<le> (15::real) powr (7 / 15) \<and> (15::real) powr (7 / 15) \<le> 99 / 25"
    using root_between [of 15 7 76 25 99] by simp
  show "101 / 25 \<le> (15::real) powr (8 / 15) \<and> (15::real) powr (8 / 15) \<le> 124 / 25"
    using root_between [of 15 8 101 25 124] by simp
  show "126 / 25 \<le> (15::real) powr (9 / 15) \<and> (15::real) powr (9 / 15) \<le> 149 / 25"
    using root_between [of 15 9 126 25 149] by simp
  show "151 / 25 \<le> (15::real) powr (10 / 15) \<and> (15::real) powr (10 / 15) \<le> 174 / 25"
    using root_between [of 15 10 151 25 174] by simp
  show "176 / 25 \<le> (15::real) powr (11 / 15) \<and> (15::real) powr (11 / 15) \<le> 199 / 25"
    using root_between [of 15 11 176 25 199] by simp
  show "201 / 25 \<le> (15::real) powr (12 / 15) \<and> (15::real) powr (12 / 15) \<le> 224 / 25"
    using root_between [of 15 12 201 25 224] by simp
  show "251 / 25 \<le> (15::real) powr (13 / 15) \<and> (15::real) powr (13 / 15) \<le> 274 / 25"
    using root_between [of 15 13 251 25 274] by simp
  show "301 / 25 \<le> (15::real) powr (14 / 15) \<and> (15::real) powr (14 / 15) \<le> 324 / 25"
    using root_between [of 15 14 301 25 324] by simp
qed

lemma margin_eqI:
  assumes "0 < r" and "r < ws" and "ws < float_limit" and "0 \<le> k" and "k \<le> 1000"
    and "real_of_int k + 1 / 25 \<le> real_of_int ws powr (real_of_int r / real_of_int ws)
       \<and> real_of_int ws powr (real_of_int r / real_of_int ws) \<le> real_of_int k + 24 / 25"
  shows "exp_wait env ws r = Inr k"
proof (rule exp_wait_eqI [OF assms(1-3)])
  let ?x = "real_of_int ws powr (real_of_int r / real_of_int ws)"
  have k: "real_of_int k \<le> 1000" using assms(5) by simp
  have "?x * float_tolerance \<le> 1001 * float_tolerance"
    using assms(6) k float_tolerance_bounds by (intro mult_right_mono) simp_all
  also have "\<dots> \<le> 1 / 100" by (simp add: float_tolerance_def)
  finally have small: "?x * float_tolerance \<le> 1 / 100" .
  show "real_of_int k \<le> ?x * (1 - float_tolerance)"
    using assms(6) small by (simp add: algebra_simps)
  show "?x * (1 + float_tolerance) < real_of_int k + 1"
    using assms(6) small by (simp add: algebra_simps)
qed

lemma default_backoff:
  "exp_wait env 15 0 = Inr 1" "exp_wait env 15 1 = Inr 1" "exp_wait env 15 2 = Inr 1"
  "exp_wait env 15 3 = Inr 1" "exp_wait env 15 4 = Inr 2" "exp_wait env 15 5 = Inr 2"
  "exp_wait env 15 6 = Inr 2" "exp_wait env 15 7 = Inr 3" "exp_wait env 15 8 = Inr 4"
  "exp_wait env 15 9 = Inr 5" "exp_wait env 15 10 = Inr 6" "exp_wait env 15 11 = Inr 7"
  "exp_wait env 15 12 = Inr 8" "exp_wait env 15 13 = Inr 10" "exp_wait env 15 14 = Inr 12"
  "exp_wait env 15 15 = Inr 15"
proof -
  have lim: "(15::int) < float_limit" by (simp add: float_limit_def)
  show "exp_wait env 15 0 = Inr 1" using lim by (simp add: exp_wait_first)
  show "exp_wait env 15 15 = Inr 15" by (simp add: exp_wait_last float_exact_def)
  show "exp_wait env 15 1 = Inr 1"
    using default_backoff_margin(1) by (intro margin_eqI lim) simp_all
  show "exp_wait env 15 2 = Inr 1"
    using default_backoff_margin(2) by (intro margin_eqI lim) simp_all
  show "exp_wait env 15 3 = Inr 1"
    using default_backoff_margin(3) by (intro margin_eqI lim) simp_all
  show "exp_wait env 15 4 = Inr 2"
    using default_backoff_margin(4) by (intro margin_eqI lim) simp_all
  show "exp_wait env 15 5 = Inr 2"
    using default_backoff_margin(5) by (intro margin_eqI lim) simp_all
  show "exp_wait env 15 6 = Inr 2"
    using default_backoff_margin(6) by (intro margin_eqI lim) simp_all
  show "exp_wait env 15 7 = Inr 3"
    using default_backoff_margin(7) by (intro margin_eqI lim) simp_all
  show "exp_wait env 15 8 = Inr 4"
    using default_backoff_margin(8) by (intro margin_eqI lim) simp_all
  show "exp_wait env 15 9 = Inr 5"
    using default_backoff_margin(9) by (intro margin_eqI lim) simp_all
  show "exp_wait env 15 10 = Inr 6"
    using default_backoff_margin(10) by (intro margin_eqI lim) simp_all
  show "exp_wait env 15 11 = Inr 7"
    using default_backoff_margin(11) by (intro margin_eqI lim) simp_all
  show "exp_wait env 15 12 = Inr 8"
    using default_backoff_margin(12) by (intro margin_eqI lim) simp_all
  show "exp_wait env 15 13 = Inr 10"
    using default_backoff_margin(13) by (intro margin_eqI lim) simp_all
  show "exp_wait env 15 14 = Inr 12"
    using default_backoff_margin(14) by (intro margin_eqI lim) simp_all
qed



text \<open>
  Two retry counts that differ by one or more have powers that differ by the factor
  \<open>ws powr (1 / ws)\<close> at least, which exceeds the rounding as long as \<^verbatim>\<open>wait_seconds\<close> is
  at most \<open>2 ^ 30\<close>. Up to there the wait never decreases, is never shorter than one second
  and never longer than \<^verbatim>\<open>wait_seconds\<close>.
\<close>

lemma exp_half: "exp (1 / 2) \<le> (2::real)"
proof -
  have "1 + (- (1 / 2)) \<le> exp (- (1 / 2) :: real)" by (rule exp_ge_add_one_self)
  then have "1 / 2 \<le> 1 / exp (1 / 2 :: real)" by (simp add: exp_minus inverse_eq_divide)
  then show ?thesis by (simp add: field_simps)
qed

lemma root_step:
  assumes "2 \<le> ws" and "ws \<le> 2 ^ 30"
  shows "1 + 1 / 2 ^ 31 \<le> real_of_int ws powr (1 / real_of_int ws)"
proof -
  have ws: "2 \<le> real_of_int ws" "real_of_int ws \<le> 2 ^ 30" using assms by simp_all
  have "1 / 2 \<le> ln (2::real)" using exp_half ln_ge_iff [of 2 "1 / 2"] by simp
  also have "\<dots> \<le> ln (real_of_int ws)" using ws by simp
  finally have ln: "1 / 2 \<le> ln (real_of_int ws)" .
  have "1 / 2 ^ 31 = (1 / 2) / (2 ^ 30 :: real)" by simp
  also have "\<dots> \<le> (1 / 2) / real_of_int ws" using ws by (intro divide_left_mono) simp_all
  also have "\<dots> \<le> ln (real_of_int ws) / real_of_int ws"
    using ln ws by (intro divide_right_mono) simp_all
  finally have "1 + 1 / 2 ^ 31 \<le> 1 + ln (real_of_int ws) / real_of_int ws" by simp
  also have "\<dots> \<le> exp (ln (real_of_int ws) / real_of_int ws)" by (rule exp_ge_add_one_self)
  also have "\<dots> = real_of_int ws powr (1 / real_of_int ws)"
    using ws by (simp add: powr_def)
  finally show ?thesis .
qed

lemma root_gap:
  assumes "2 \<le> ws" and "ws \<le> 2 ^ 30" and "c1 < c2"
  shows "real_of_int ws powr (real_of_int c1 / real_of_int ws) * (1 + float_tolerance)
       \<le> real_of_int ws powr (real_of_int c2 / real_of_int ws) * (1 - float_tolerance)"
proof -
  let ?x1 = "real_of_int ws powr (real_of_int c1 / real_of_int ws)"
  let ?x2 = "real_of_int ws powr (real_of_int c2 / real_of_int ws)"
  let ?s = "real_of_int ws powr (1 / real_of_int ws)"
  have pos: "0 < ws" using assms(1) by simp
  have "c1 + 1 \<le> c2" using assms(3) by simp
  then have "real_of_int ws powr (real_of_int (c1 + 1) / real_of_int ws) \<le> ?x2"
    using pos by (intro powr_ratio_mono)
  moreover have "real_of_int ws powr (real_of_int (c1 + 1) / real_of_int ws) = ?x1 * ?s"
    by (simp add: add_divide_distrib powr_add)
  ultimately have x2: "?x1 * ?s \<le> ?x2" by simp
  have x1: "0 \<le> ?x1" by simp
  have "(1 + float_tolerance) \<le> (1 + 1 / 2 ^ 31) * (1 - float_tolerance)"
    by (simp add: float_tolerance_def)
  also have "\<dots> \<le> ?s * (1 - float_tolerance)"
    using root_step [OF assms(1,2)] float_tolerance_bounds by (intro mult_right_mono) simp_all
  finally have "?x1 * (1 + float_tolerance) \<le> ?x1 * (?s * (1 - float_tolerance))"
    using x1 by (intro mult_left_mono)
  also have "\<dots> = (?x1 * ?s) * (1 - float_tolerance)" by simp
  also have "\<dots> \<le> ?x2 * (1 - float_tolerance)"
    using x2 float_tolerance_bounds by (intro mult_right_mono) simp_all
  finally show ?thesis .
qed

lemma exp_wait_mono:
  assumes "0 < ws" and "ws \<le> 2 ^ 30" and "0 \<le> c1" and "c1 \<le> c2" and "c2 \<le> ws"
  shows "\<exists>w1 w2. exp_wait env ws c1 = Inr w1 \<and> exp_wait env ws c2 = Inr w2 \<and> w1 \<le> w2"
proof -
  have lim: "ws < float_limit" using assms(2) by (simp add: float_limit_def)
  have ex: "ws \<le> float_exact" using assms(2) by (simp add: float_exact_def)
  obtain w1 where w1: "exp_wait env ws c1 = Inr w1"
      "w1 \<le> \<lfloor>real_of_int ws powr (real_of_int c1 / real_of_int ws) * (1 + float_tolerance)\<rfloor>"
    using exp_wait_rounded [OF assms(1) lim assms(3), of env] assms(4,5) by auto
  obtain w2 where w2: "exp_wait env ws c2 = Inr w2"
      "\<lfloor>real_of_int ws powr (real_of_int c2 / real_of_int ws) * (1 - float_tolerance)\<rfloor> \<le> w2"
    using exp_wait_rounded [OF assms(1) lim _ assms(5), of env] assms(3,4) by auto
  consider "c1 = c2" | "c1 < c2" "ws = 1" | "c1 < c2" "2 \<le> ws" using assms(1,4) by fastforce
  then show ?thesis
  proof cases
    case 1
    then show ?thesis using w1(1) by simp
  next
    case 2
    then have "c1 = 0" "c2 = 1" using assms(3,5) by simp_all
    then show ?thesis using 2 by (simp add: exp_wait_first exp_wait_last float_limit_def float_exact_def)
  next
    case 3
    have "\<lfloor>real_of_int ws powr (real_of_int c1 / real_of_int ws) * (1 + float_tolerance)\<rfloor>
        \<le> \<lfloor>real_of_int ws powr (real_of_int c2 / real_of_int ws) * (1 - float_tolerance)\<rfloor>"
      using root_gap [OF 3(2) assms(2) 3(1)] by (rule floor_mono)
    then have "w1 \<le> w2" using w1(2) w2(2) by linarith
    then show ?thesis using w1(1) w2(1) by simp
  qed
qed

lemma backoff_bounded:
  assumes "0 < ws" and "ws \<le> 2 ^ 30" and "0 \<le> r"
  shows "\<exists>w. exp_wait env ws (cap_retry ws r) = Inr w \<and> 1 \<le> w \<and> w \<le> ws"
proof -
  have lim: "ws < float_limit" using assms(2) by (simp add: float_limit_def)
  have ex: "ws \<le> float_exact" using assms(2) by (simp add: float_exact_def)
  have c: "0 \<le> cap_retry ws r" "cap_retry ws r \<le> ws" using assms by (simp_all add: cap_retry_def)
  have first: "exp_wait env ws 0 = Inr 1" using assms(1) lim by (simp add: exp_wait_first)
  have last: "exp_wait env ws ws = Inr ws" using assms(1) ex by (simp add: exp_wait_last)
  from exp_wait_mono [OF assms(1,2) _ c(1) c(2), of env] first
  obtain w where w: "exp_wait env ws (cap_retry ws r) = Inr w" "1 \<le> w" by auto
  from exp_wait_mono [OF assms(1,2) c(1) c(2), of env] last w(1)
  have "w \<le> ws" by auto
  then show ?thesis using w by simp
qed



subsection \<open>The wait loops\<close>

lemma wait_loop_active: "wait_loop env check tn ws True retry h = Some (Inr (), h)"
  by (subst wait_loop.simps) simp

lemma wait_loop_poll:
  assumes "exp_wait env ws (cap_retry ws retry) = Inr w" and "0 \<le> w"
    and "check tn (h @ [Sleep w]) = (Inr a, h2)"
  shows "wait_loop env check tn ws False retry h = wait_loop env check tn ws a (cap_retry ws retry + 1) h2"
  using assms by (subst wait_loop.simps) (simp add: sleep_def)

lemma wait_loop_poll_raises:
  assumes "exp_wait env ws (cap_retry ws retry) = Inr w" and "0 \<le> w"
    and "check tn (h @ [Sleep w]) = (Inl e, h2)"
  shows "wait_loop env check tn ws False retry h = Some (Inl e, h2)"
  using assms by (subst wait_loop.simps) (simp add: sleep_def)

lemma wait_loop_overflow:
  assumes "float_limit \<le> wait_seconds" and "0 \<le> retry"
  shows "wait_loop env check tn wait_seconds False retry h =
           Some (Inl (PyExn ''OverflowError'' ''int too large to convert to float''), h)"
proof -
  have "0 < wait_seconds" using assms(1) by (simp add: float_limit_def)
  then have "float_limit \<le> \<bar>wait_seconds\<bar>"
    and "\<bar>cap_retry wait_seconds retry\<bar> \<le> \<bar>wait_seconds\<bar>"
    using assms by (simp_all add: cap_retry_def)
  then have "exp_wait env wait_seconds (cap_retry wait_seconds retry) =
      Inl (PyExn ''OverflowError'' ''int too large to convert to float'')"
    by (rule exp_wait_overflow)
  then show ?thesis by (subst wait_loop.simps) simp
qed

lemma check_table_status_history: "snd (check_table_status env tn h) = h @ [DescribeTable tn]"
  by (simp add: check_table_status_def Let_def split: sum.splits option.splits prod.splits)

lemma check_gsi_status_history: "snd (check_gsi_status env tn h) = h @ [DescribeTable tn]"
  by (simp add: check_gsi_status_def Let_def split: sum.splits)

lemma wait_loop_ready_at_once:
  assumes "fst (check tn (h @ [Sleep 1])) = Inr True"
    and "snd (check tn (h @ [Sleep 1])) = h @ [Sleep 1, DescribeTable tn]"
  shows "wait_loop env check tn 15 False 0 h = Some (Inr (), h @ [Sleep 1, DescribeTable tn])"
proof -
  have c: "check tn (h @ [Sleep 1]) = (Inr True, h @ [Sleep 1, DescribeTable tn])"
    using assms by (simp add: prod_eq_iff)
  have "exp_wait env 15 (cap_retry 15 0) = Inr 1"
    by (simp add: cap_retry_def default_backoff(1))
  from wait_loop_poll [where check = check and tn = tn and h = h, OF this _ c]
  show ?thesis by (simp add: wait_loop_active cap_retry_def)
qed

lemma table_active_wait_ready:
  assumes "\<And>h. fst (check_table_status env tn h) = Inr True"
    and "\<And>h. fst (check_gsi_status env tn h) = Inr True"
  shows "table_active_wait env tn 15 h =
           Some (Inr PNone, h @ [Sleep 1, DescribeTable tn, Sleep 1, DescribeTable tn])"
proof -
  have 1: "wait_loop env (check_table_status env) tn 15 False 0 h =
             Some (Inr (), h @ [Sleep 1, DescribeTable tn])"
    by (rule wait_loop_ready_at_once) (simp_all add: assms check_table_status_history)
  have 2: "wait_loop env (check_gsi_status env) tn 15 False 0 (h @ [Sleep 1, DescribeTable tn]) =
             Some (Inr (), (h @ [Sleep 1, DescribeTable tn]) @ [Sleep 1, DescribeTable tn])"
    by (rule wait_loop_ready_at_once) (simp_all add: assms check_gsi_status_history)
  show ?thesis by (simp add: table_active_wait_def 1 2)
qed


text \<open>
  Counting the \<^verbatim>\<open>describe_table\<close> calls in the history: a loop whose check answers
  \<^verbatim>\<open>True\<close> at poll number \<open>n\<close> has left by then.
\<close>

lemma polls_append: "polls (h @ t) = polls h + polls t"
  by (simp add: polls_def)

lemma polls_single:
  "polls [Sleep w] = 0" "polls [DescribeTable tn] = 1" "polls [Sleep w, DescribeTable tn] = 1"
  by (simp_all add: polls_def)

lemma wait_loop_terminates:
  assumes hist: "\<And>h. snd (check tn h) = h @ [DescribeTable tn]"
    and active: "\<And>h'. polls h' = n \<Longrightarrow> fst (check tn h') = Inr True"
    and le: "polls h \<le> n"
  shows "\<exists>r h'. wait_loop env check tn ws a retry h = Some (r, h') \<and> polls h' \<le> n + 1"
  using le
proof (induction "n - polls h" arbitrary: a retry h)
  case 0
  then have n: "polls h = n" by simp
  show ?case
  proof (cases a)
    case True
    then show ?thesis using n by (simp add: wait_loop_active)
  next
    case False
    show ?thesis
    proof (cases "exp_wait env ws (cap_retry ws retry)")
      case (Inl e)
      then show ?thesis using False n by (subst wait_loop.simps) simp
    next
      case (Inr w)
      show ?thesis
      proof (cases "w < 0")
        case True
        then show ?thesis using False Inr n by (subst wait_loop.simps) (simp add: sleep_def)
      next
        case nonneg: False
        have p: "polls (h @ [Sleep w]) = n" using n by (simp add: polls_append polls_single)
        have c: "check tn (h @ [Sleep w]) = (Inr True, h @ [Sleep w, DescribeTable tn])"
          using active[OF p] hist[of "h @ [Sleep w]"] by (simp add: prod_eq_iff)
        have "wait_loop env check tn ws False retry h =
                Some (Inr (), h @ [Sleep w, DescribeTable tn])"
          using wait_loop_poll [where check = check and tn = tn and h = h, OF Inr _ c] nonneg by (simp add: wait_loop_active)
        then show ?thesis using False n by (simp add: polls_append polls_single)
      qed
    qed
  qed
next
  case (Suc k)
  then have lt: "polls h < n" by simp
  show ?case
  proof (cases a)
    case True
    then show ?thesis using lt by (simp add: wait_loop_active)
  next
    case False
    show ?thesis
    proof (cases "exp_wait env ws (cap_retry ws retry)")
      case (Inl e)
      then show ?thesis using False lt by (subst wait_loop.simps) simp
    next
      case (Inr w)
      show ?thesis
      proof (cases "w < 0")
        case True
        then show ?thesis using False Inr lt by (subst wait_loop.simps) (simp add: sleep_def)
      next
        case nonneg: False
        obtain r where c: "check tn (h @ [Sleep w]) = (r, h @ [Sleep w, DescribeTable tn])"
          using hist[of "h @ [Sleep w]"] by (cases "check tn (h @ [Sleep w])") simp
        have p: "polls (h @ [Sleep w, DescribeTable tn]) = polls h + 1"
          using polls_append[of h "[Sleep w, DescribeTable tn]"] by (simp add: polls_def)
        show ?thesis
        proof (cases r)
          case (Inl e)
          then have "wait_loop env check tn ws False retry h =
                       Some (Inl e, h @ [Sleep w, DescribeTable tn])"
            using wait_loop_poll_raises [where check = check and tn = tn and h = h, OF Inr _ c[unfolded Inl]] nonneg by simp
          then show ?thesis using False lt p by simp
        next
          case (Inr b)
          have k: "k = n - polls (h @ [Sleep w, DescribeTable tn])"
            using Suc.hyps(2) p by simp
          have le': "polls (h @ [Sleep w, DescribeTable tn]) \<le> n" using lt p by simp
          have "wait_loop env check tn ws False retry h =
                  wait_loop env check tn ws b (cap_retry ws retry + 1) (h @ [Sleep w, DescribeTable tn])"
            using wait_loop_poll [where check = check and tn = tn and h = h,
                    OF \<open>exp_wait env ws (cap_retry ws retry) = Inr w\<close> _ c[unfolded Inr]]
              nonneg by simp
          then show ?thesis using Suc.hyps(1)[OF k le'] False by simp
        qed
      qed
    qed
  qed
qed

lemma wait_loop_three_polls:
  assumes pos: "0 < ws" and lim: "ws < float_limit"
    and hist: "\<And>h. snd (check tn h) = h @ [DescribeTable tn]"
    and p0: "\<And>h'. polls h' = polls h \<Longrightarrow> fst (check tn h') = Inr False"
    and p1: "\<And>h'. polls h' = polls h + 1 \<Longrightarrow> fst (check tn h') = Inr False"
    and p2: "\<And>h'. polls h' = polls h + 2 \<Longrightarrow> fst (check tn h') = Inr True"
  shows "\<exists>w0 w1 w2. wait_loop env check tn ws False 0 h =
           Some (Inr (), h @ [Sleep w0, DescribeTable tn, Sleep w1, DescribeTable tn,
                              Sleep w2, DescribeTable tn])"
proof -
  define r1 where "r1 = cap_retry ws 0 + 1"
  define r2 where "r2 = cap_retry ws r1 + 1"
  have r: "0 \<le> r1" "0 \<le> r2" using pos by (simp_all add: r1_def r2_def cap_retry_def)
  obtain w0 where w0: "exp_wait env ws (cap_retry ws 0) = Inr w0" "0 \<le> w0"
    using exp_wait_nonneg [OF pos lim, of 0] by blast
  obtain w1 where w1: "exp_wait env ws (cap_retry ws r1) = Inr w1" "0 \<le> w1"
    using exp_wait_nonneg [OF pos lim r(1)] by blast
  obtain w2 where w2: "exp_wait env ws (cap_retry ws r2) = Inr w2" "0 \<le> w2"
    using exp_wait_nonneg [OF pos lim r(2)] by blast
  let ?h1 = "h @ [Sleep w0, DescribeTable tn]"
  let ?h2 = "?h1 @ [Sleep w1, DescribeTable tn]"
  let ?h3 = "?h2 @ [Sleep w2, DescribeTable tn]"
  have c0: "check tn (h @ [Sleep w0]) = (Inr False, ?h1)"
    using p0[of "h @ [Sleep w0]"] hist[of "h @ [Sleep w0]"]
    by (simp add: prod_eq_iff polls_append polls_single)
  have c1: "check tn (?h1 @ [Sleep w1]) = (Inr False, ?h2)"
    using p1[of "?h1 @ [Sleep w1]"] hist[of "?h1 @ [Sleep w1]"]
    by (simp add: prod_eq_iff polls_def)
  have c2: "check tn (?h2 @ [Sleep w2]) = (Inr True, ?h3)"
    using p2[of "?h2 @ [Sleep w2]"] hist[of "?h2 @ [Sleep w2]"]
    by (simp add: prod_eq_iff polls_def)
  have "wait_loop env check tn ws False 0 h = wait_loop env check tn ws False r1 ?h1"
    using wait_loop_poll [where check = check and tn = tn and h = h, OF w0 c0] by (simp add: r1_def)
  also have "\<dots> = wait_loop env check tn ws False r2 ?h2"
    using wait_loop_poll [where check = check and tn = tn and h = "?h1", OF w1 c1] by (simp add: r2_def)
  also have "\<dots> = wait_loop env check tn ws True (cap_retry ws r2 + 1) ?h3"
    using wait_loop_poll [where check = check and tn = tn and h = "?h2", OF w2 c2] by simp
  also have "\<dots> = Some (Inr (), ?h3)" by (rule wait_loop_active)
  finally show ?thesis by simp
qed






subsection \<open>The retry loop\<close>

lemma wrapper_loop_exhausted:
  "num_retries < retry \<Longrightarrow> wrapper_loop fn ctx num_retries wait_seconds retry h = (Inr PNone, h)"
  by (subst wrapper_loop.simps) simp

lemma wrapper_loop_first_try:
  assumes "retry \<le> num_retries"
    and "10000 < get_remaining_time_in_millis ctx h"
    and "fn h = (Inr v, h1)"
  shows "wrapper_loop fn ctx num_retries wait_seconds retry h = (Inr v, h1)"
  using assms by (subst wrapper_loop.simps) simp

lemma wrapper_loop_always_fails:
  assumes fails: "\<And>h. \<exists>e. fn h = (Inl e, h @ [ev]) \<and> \<not> str_contains ''already exists'' (exn_str e)"
    and time: "\<And>h. 10000 < get_remaining_time_in_millis ctx h"
    and ws: "0 \<le> wait_seconds"
  shows "wrapper_loop fn ctx num_retries wait_seconds retry h =
           (Inr PNone, h @ concat (replicate (nat (num_retries + 1 - retry)) [ev, Sleep wait_seconds]))"
proof (induction "nat (num_retries + 1 - retry)" arbitrary: retry h)
  case 0
  then have "num_retries < retry" by simp
  with 0 show ?case by (simp add: wrapper_loop_exhausted)
next
  case (Suc k)
  then have le: "retry \<le> num_retries" and k: "k = nat (num_retries + 1 - (retry + 1))"
    by simp_all
  obtain e where e: "fn h = (Inl e, h @ [ev])" "\<not> str_contains ''already exists'' (exn_str e)"
    using fails by blast
  have "wrapper_loop fn ctx num_retries wait_seconds retry h =
          wrapper_loop fn ctx num_retries wait_seconds (retry + 1) (h @ [ev, Sleep wait_seconds])"
    using le e ws time[of h] by (subst wrapper_loop.simps) (simp add: sleep_def)
  also have "\<dots> = (Inr PNone, (h @ [ev, Sleep wait_seconds]) @
       concat (replicate k [ev, Sleep wait_seconds]))"
    using Suc.hyps(1)[OF k] k by simp
  finally show ?case using Suc.hyps(2)[symmetric] by simp
qed

lemma wrapper_loop_already_exists:
  assumes "retry \<le> num_retries"
    and "10000 < get_remaining_time_in_millis ctx h"
    and "fn h = (Inl e, h1)"
    and "str_contains ''already exists'' (exn_str e)"
  shows "wrapper_loop fn ctx num_retries wait_seconds retry h = (Inr PNone, h1)"
  using assms by (subst wrapper_loop.simps) simp

lemma update_call_fails:
  assumes "\<And>kwargs h. \<exists>e. update_table env kwargs h = Inl e
              \<and> \<not> str_contains ''already exists'' (exn_str e)"
  shows "\<exists>e. update_call env kwargs h = (Inl e, h @ [UpdateTable kwargs])
              \<and> \<not> str_contains ''already exists'' (exn_str e)"
proof -
  obtain e where "update_table env kwargs h = Inl e" "\<not> str_contains ''already exists'' (exn_str e)"
    using assms by blast
  then show ?thesis by (simp add: update_call_def)
qed

lemma function_retry_exhausts:
  assumes "\<And>kwargs h. \<exists>e. update_table env kwargs h = Inl e
              \<and> \<not> str_contains ''already exists'' (exn_str e)"
    and "\<And>h. 10000 < get_remaining_time_in_millis ctx h"
    and "0 \<le> wait_seconds"
  shows "function_retry (update_call env kwargs) ctx num_retries wait_seconds h =
           (Inr PNone, h @ concat (replicate (nat (num_retries + 1))
                                     [UpdateTable kwargs, Sleep wait_seconds]))"
  unfolding function_retry_def
  using wrapper_loop_always_fails [of "update_call env kwargs" "UpdateTable kwargs" ctx
           wait_seconds num_retries 0 h, OF update_call_fails [OF assms(1)] assms(2,3)]
  by simp




subsection \<open>The status checks when the status cannot be read\<close>

lemma check_table_status_unbound:
  assumes "describe_table env tablename h = Inr response"
    and "read_table_status response = Inl e"
  shows "check_table_status env tablename h =
           (Inl (PyExn ''UnboundLocalError''
              ''local variable 'table_status' referenced before assignment''),
            h @ [DescribeTable tablename])"
  using assms by (simp add: check_table_status_def)

lemma check_gsi_status_fail_open:
  assumes "describe_table env tablename h = Inr response"
    and "read_gsi_status response = Inl e"
  shows "check_gsi_status env tablename h = (Inr True, h @ [DescribeTable tablename])"
  using assms by (simp add: check_gsi_status_def)

subsection \<open>The notification\<close>

lemma send_response_sends:
  assumes "py_getitem event ''StackId'' = Inr stack_id"
    and "py_getitem event ''RequestId'' = Inr request_id"
    and "py_getitem event ''LogicalResourceId'' = Inr logical_resource_id"
    and "py_getitem event ''ResponseURL'' = Inr response_url"
    and "Request_init env response_url = None"
  shows "send_response env ctx event status reason h =
           (Inr PNone, h @ [UrlOpen (put_request response_url (dumps_encode env
              (response_dict ctx status
                 (case reason of None \<Rightarrow> default_reason ctx
                  | Some r \<Rightarrow> if r = [] then default_reason ctx else r)
                 stack_id request_id logical_resource_id)))])"
  using assms by (simp add: send_response_def Let_def split: sum.splits)

lemma send_response_outcome:
  "(\<exists>e. send_response env ctx event status reason h = (Inl e, h))
   \<or> (\<exists>req. send_response env ctx event status reason h = (Inr PNone, h @ [UrlOpen req]))"
  by (simp add: send_response_def Let_def split: sum.splits option.splits)

lemma send_response_raises_before_put:
  "send_response env ctx event status reason h = (Inl e, h') \<Longrightarrow> h' = h"
  using send_response_outcome [of env ctx event status reason h] by auto

lemma send_response_returns_after_put:
  "send_response env ctx event status reason h = (Inr v, h') \<Longrightarrow>
     v = PNone \<and> (\<exists>req. h' = h @ [UrlOpen req])"
  using send_response_outcome [of env ctx event status reason h] by auto

lemma send_response_raises_whatever_status:
  assumes "send_response env ctx event status reason h = (Inl e, h')"
  shows "send_response env ctx event status' reason' h = (Inl e, h')"
  using assms
  by (simp add: send_response_def Let_def split: sum.splits option.splits)

lemma notify_unfold:
  "notify env ctx event h =
     (case send_response env ctx event ''SUCCESS'' None h of
        (Inr v, h1) \<Rightarrow> (Inr PNone, h1)
      | (Inl e, h1) \<Rightarrow>
          (case send_response env ctx event ''FAILURE'' None h1 of
             (Inr v, h2) \<Rightarrow> (Inr PNone, h2)
           | (Inl e', h2) \<Rightarrow> (Inl e', h2)))"
  by (simp add: notify_def notify_attempts_def send_response_call_def split: prod.splits sum.splits)

lemma notify_success:
  "send_response env ctx event ''SUCCESS'' None h = (Inr v, h1) \<Longrightarrow>
     notify env ctx event h = (Inr PNone, h1)"
  by (simp add: notify_unfold)

lemma notify_fallback:
  assumes "send_response env ctx event ''SUCCESS'' None h = (Inl e, h1)"
  shows "h1 = h" and "notify env ctx event h = send_response env ctx event ''FAILURE'' None h"
proof -
  show h1: "h1 = h" using assms by (rule send_response_raises_before_put)
  show "notify env ctx event h = send_response env ctx event ''FAILURE'' None h"
  proof (cases "send_response env ctx event ''FAILURE'' None h")
    case (Pair r h2)
    show ?thesis
    proof (cases r)
      case (Inl e')
      then show ?thesis using assms h1 Pair by (simp add: notify_unfold)
    next
      case (Inr v)
      then have "v = PNone" using Pair send_response_returns_after_put by blast
      then show ?thesis using assms h1 Pair Inr by (simp add: notify_unfold)
    qed
  qed
qed

lemma notify_puts_at_most_once:
  "length (filter is_put (snd (notify env ctx event h))) \<le> length (filter is_put h) + 1"
proof (cases "send_response env ctx event ''SUCCESS'' None h")
  case (Pair r h1)
  show ?thesis
  proof (cases r)
    case (Inr v)
    then obtain req where "h1 = h @ [UrlOpen req]"
      using Pair send_response_returns_after_put by blast
    then show ?thesis using notify_success [OF Pair [unfolded Inr]] by simp
  next
    case (Inl e)
    note fb = notify_fallback [OF Pair [unfolded Inl]]
    from send_response_outcome [of env ctx event "''FAILURE''" None h]
    show ?thesis using fb(2) by auto
  qed
qed


lemma notify_attempts_success:
  assumes "send_response env ctx event ''SUCCESS'' None h = (Inr v, h1)"
  shows "notify_attempts env ctx event h = ((Inr PNone, h1), [''SUCCESS''])"
  using assms by (simp add: notify_attempts_def send_response_call_def)

lemma notify_attempts_fallback:
  assumes "send_response env ctx event ''SUCCESS'' None h = (Inl e, h1)"
  shows "h1 = h"
    and "send_response env ctx event ''FAILURE'' None h = (Inl e, h)"
    and "notify_attempts env ctx event h = ((Inl e, h), [''SUCCESS'', ''FAILURE''])"
proof -
  show h1: "h1 = h" using assms by (rule send_response_raises_before_put)
  show f: "send_response env ctx event ''FAILURE'' None h = (Inl e, h)"
    using send_response_raises_whatever_status [OF assms] h1 by simp
  show "notify_attempts env ctx event h = ((Inl e, h), [''SUCCESS'', ''FAILURE''])"
    using assms h1 f by (simp add: notify_attempts_def send_response_call_def)
qed

lemma notify_attempts_shape:
  "snd (notify_attempts env ctx event h) = [''SUCCESS''] \<or>
   snd (notify_attempts env ctx event h) = [''SUCCESS'', ''FAILURE'']"
  by (simp add: notify_attempts_def send_response_call_def split: prod.splits sum.splits)

text \<open>Nothing in the handler depends on what \<^verbatim>\<open>urlopen\<close> answers.\<close>

lemma check_table_status_urlopen:
  "check_table_status (env\<lparr>urlopen := f\<rparr>) = check_table_status env"
  by (intro ext) (simp add: check_table_status_def)

lemma check_gsi_status_urlopen:
  "check_gsi_status (env\<lparr>urlopen := f\<rparr>) = check_gsi_status env"
  by (intro ext) (simp add: check_gsi_status_def)

lemma send_response_urlopen:
  "send_response (env\<lparr>urlopen := f\<rparr>) = send_response env"
  by (intro ext) (simp add: send_response_def Let_def split: sum.splits option.splits)

lemma notify_attempts_urlopen:
  "notify_attempts (env\<lparr>urlopen := f\<rparr>) = notify_attempts env"
  unfolding notify_attempts_def send_response_call_def send_response_urlopen ..

lemma notify_urlopen: "notify (env\<lparr>urlopen := f\<rparr>) = notify env"
  by (intro ext) (simp add: notify_def notify_attempts_urlopen)

lemma wait_loop_env_aux:
  "wait_loop env check tn ws a retry h = Some res \<Longrightarrow>
     exp_wait env' = exp_wait env \<longrightarrow> wait_loop env' check tn ws a retry h = Some res"
proof (induction rule: wait_loop.raw_induct [rotated 1, consumes 1])
  case (1 loop env check tn ws a retry h res)
  show ?case
  proof
    assume eq: "exp_wait env' = exp_wait env"
    show "wait_loop env' check tn ws a retry h = Some res"
    proof (cases a)
      case True
      then show ?thesis using 1(2) by (simp add: wait_loop_active)
    next
      case False
      show ?thesis
      proof (cases "exp_wait env ws (cap_retry ws retry)")
        case (Inl e)
        then show ?thesis using 1(2) False eq by (subst wait_loop.simps) simp
      next
        case (Inr w)
        show ?thesis
        proof (cases "sleep w h")
          case (Pair r1 h1)
          show ?thesis
          proof (cases r1)
            case (Inl e)
            then show ?thesis using 1(2) False Inr Pair eq by (subst wait_loop.simps) simp
          next
            case slept: (Inr u)
            show ?thesis
            proof (cases "check tn h1")
              case c: (Pair r2 h2)
              show ?thesis
              proof (cases r2)
                case (Inl e)
                then show ?thesis
                  using 1(2) False Inr Pair slept c eq by (subst wait_loop.simps) simp
              next
                case polled: (Inr b)
                then have "loop env check tn ws b (cap_retry ws retry + 1) h2 = Some res"
                  using 1(2) False Inr Pair slept c by simp
                from 1(1) [OF this] eq
                have "wait_loop env' check tn ws b (cap_retry ws retry + 1) h2 = Some res"
                  by simp
                then show ?thesis
                  using False Inr Pair slept c polled eq by (subst wait_loop.simps) simp
              qed
            qed
          qed
        qed
      qed
    qed
  qed
qed

lemma wait_loop_env:
  assumes "exp_wait env' = exp_wait env"
  shows "wait_loop env' check tn ws a retry h = wait_loop env check tn ws a retry h"
proof (cases "wait_loop env check tn ws a retry h")
  case (Some res)
  then show ?thesis using wait_loop_env_aux [OF Some, of env'] assms by simp
next
  case None
  show ?thesis
  proof (cases "wait_loop env' check tn ws a retry h")
    case none: None
    then show ?thesis using None by simp
  next
    case (Some res)
    then show ?thesis using wait_loop_env_aux [OF Some, of env] assms by simp
  qed
qed

lemma exp_wait_urlopen: "exp_wait (env\<lparr>urlopen := f\<rparr>) = exp_wait env"
proof -
  have "float_floor_pow (env\<lparr>urlopen := f\<rparr>) = float_floor_pow env" by simp
  then show ?thesis unfolding exp_wait_def [abs_def] by (simp only:)
qed

lemma wait_loop_urlopen: "wait_loop (env\<lparr>urlopen := f\<rparr>) = wait_loop env"
  by (intro ext wait_loop_env exp_wait_urlopen)

lemma table_active_wait_urlopen:
  "table_active_wait (env\<lparr>urlopen := f\<rparr>) = table_active_wait env"
  unfolding table_active_wait_def check_table_status_urlopen check_gsi_status_urlopen
    wait_loop_urlopen ..

lemma create_gsi_urlopen:
  "create_gsi_1 (env\<lparr>urlopen := f\<rparr>) = create_gsi_1 env"
  "create_gsi_2 (env\<lparr>urlopen := f\<rparr>) = create_gsi_2 env"
proof -
  have b1: "create_gsi_1_body (env\<lparr>urlopen := f\<rparr>) = create_gsi_1_body env"
    by (intro ext) (simp add: create_gsi_1_body_def update_call_def gsi_1_update_def)
  have b2: "create_gsi_2_body (env\<lparr>urlopen := f\<rparr>) = create_gsi_2_body env"
    by (intro ext) (simp add: create_gsi_2_body_def update_call_def gsi_2_update_def)
  show "create_gsi_1 (env\<lparr>urlopen := f\<rparr>) = create_gsi_1 env"
    unfolding create_gsi_1_def b1 ..
  show "create_gsi_2 (env\<lparr>urlopen := f\<rparr>) = create_gsi_2 env"
    unfolding create_gsi_2_def b2 ..
qed

lemma add_indexes_urlopen: "add_indexes (env\<lparr>urlopen := f\<rparr>) = add_indexes env"
proof -
  have name: "TABLE_NAME (env\<lparr>urlopen := f\<rparr>) = TABLE_NAME env" by simp
  show ?thesis
    unfolding add_indexes_def table_active_wait_urlopen create_gsi_urlopen name ..
qed

lemma lambda_handler_urlopen: "lambda_handler (env\<lparr>urlopen := f\<rparr>) = lambda_handler env"
  unfolding lambda_handler_def add_indexes_urlopen notify_urlopen ..

subsection \<open>The sample world\<close>

lemma sample_event_items:
  "py_getitem sample_event ''StackId'' = Inr (PStr ''stack-1'')"
  "py_getitem sample_event ''RequestId'' = Inr (PStr ''request-1'')"
  "py_getitem sample_event ''LogicalResourceId'' = Inr (PStr ''AddGsi'')"
  "py_getitem sample_event ''ResponseURL'' = Inr (PStr ''https://cfn.example/response'')"
  by (simp_all add: sample_event_def py_getitem_def)

lemma sample_ready:
  "fst (check_table_status (sample_env\<lparr>update_table := u\<rparr>) t h) = Inr True"
  "fst (check_gsi_status (sample_env\<lparr>update_table := u\<rparr>) t h) = Inr True"
  by (simp_all add: sample_env_def check_table_status_def check_gsi_status_def
        read_table_status_def read_gsi_status_def py_getitem_def py_in_def table_response_def)

lemma throttled_unrelated: "\<not> str_contains ''already exists'' (exn_str throttled)"
  by (simp add: throttled_def)

lemma index_exists_related: "str_contains ''already exists'' (exn_str index_exists)"
  by (simp add: index_exists_def)

lemma slow_table_status:
  "fst (check_table_status (sample_env\<lparr>describe_table := slow_table\<rparr>) tn h) =
     Inr (\<not> polls h < 2)"
  by (simp add: check_table_status_def slow_table_def read_table_status_def py_getitem_def
        table_response_def)

lemma sample_add_indexes:
  "add_indexes sample_env sample_ctx [] =
     Some (Inr PNone,
       [Sleep 1, DescribeTable (PStr ''orders''), Sleep 1, DescribeTable (PStr ''orders''),
        UpdateTable (gsi_1_update sample_env),
        Sleep 1, DescribeTable (PStr ''orders''), Sleep 1, DescribeTable (PStr ''orders''),
        UpdateTable (gsi_2_update sample_env),
        Sleep 1, DescribeTable (PStr ''orders''), Sleep 1, DescribeTable (PStr ''orders'')])"
proof -
  have name: "TABLE_NAME sample_env = PStr ''orders''" by (simp add: sample_env_def)
  have ready: "\<And>h. fst (check_table_status sample_env (PStr ''orders'') h) = Inr True"
      "\<And>h. fst (check_gsi_status sample_env (PStr ''orders'') h) = Inr True"
    using sample_ready [of "update_table sample_env"] by simp_all
  note w = table_active_wait_ready [of sample_env "PStr ''orders''", OF ready]
  have time: "10000 < get_remaining_time_in_millis sample_ctx h" for h
    by (simp add: sample_ctx_def)
  have u: "update_call sample_env kwargs h = (Inr PNone, h @ [UpdateTable kwargs])" for kwargs h
    by (simp add: update_call_def sample_env_def)
  have c1: "create_gsi_1 sample_env sample_ctx 5 30 h =
              (Inr PNone, h @ [UpdateTable (gsi_1_update sample_env)])" for h
    unfolding create_gsi_1_def function_retry_def create_gsi_1_body_def [abs_def]
    by (rule wrapper_loop_first_try) (simp_all add: time u)
  have c2: "create_gsi_2 sample_env sample_ctx 5 30 h =
              (Inr PNone, h @ [UpdateTable (gsi_2_update sample_env)])" for h
    unfolding create_gsi_2_def function_retry_def create_gsi_2_body_def [abs_def]
    by (rule wrapper_loop_first_try) (simp_all add: time u)
  show ?thesis
    unfolding add_indexes_def name
    by (simp only: w c1 c2 option.case prod.case sum.case append_assoc append.simps)
qed

lemma sample_send:
  assumes "dumps_encode env = dumps_encode sample_env"
    and "Request_init env = Request_init sample_env"
  shows "send_response env sample_ctx sample_event ''SUCCESS'' None h =
           (Inr PNone, h @ [UrlOpen sample_put])"
proof -
  have ok: "Request_init env (PStr ''https://cfn.example/response'') = None"
    using assms by (simp add: sample_env_def)
  show ?thesis
    using assms(1)
    by (simp add: send_response_sends [OF sample_event_items ok] put_request_def
          response_dict_def default_reason_def sample_env_def sample_ctx_def sample_put_def)
qed

lemma sample_lambda_handler:
  "lambda_handler sample_env sample_ctx sample_event [] =
     Some (Inr PNone, sample_history @ [UrlOpen sample_put])"
  using sample_add_indexes
  by (simp add: lambda_handler_def notify_unfold sample_send sample_history_def)


section \<open>The claims\<close>

text \<open>
  Claim C1. When every \<^verbatim>\<open>update_table\<close> call raises an error whose text does not contain
  \<^verbatim>\<open>already exists\<close> and more than 10000 ms remain at every check, each decorated
  creation makes \<open>num_retries + 1\<close> attempts, sleeps \<^verbatim>\<open>wait_seconds\<close> after each of
  them, and returns \<^verbatim>\<open>None\<close> without raising. With a table that reports ready at every
  poll and an event that carries the four keys, \<^verbatim>\<open>lambda_handler\<close> therefore runs to the
  notification and sends one request with status \<^verbatim>\<open>SUCCESS\<close>.
\<close>

theorem retries_exhausted_then_success_sent:
  assumes fails: "\<And>kwargs h. \<exists>e. update_table env kwargs h = Inl e
                     \<and> \<not> str_contains ''already exists'' (exn_str e)"
    and time: "\<And>h. 10000 < get_remaining_time_in_millis ctx h"
    and ws: "0 \<le> wait_seconds"
    and table_ready: "\<And>h. fst (check_table_status env (TABLE_NAME env) h) = Inr True"
    and gsi_ready: "\<And>h. fst (check_gsi_status env (TABLE_NAME env) h) = Inr True"
    and stack_id: "py_getitem event ''StackId'' = Inr stack_id"
    and request_id: "py_getitem event ''RequestId'' = Inr request_id"
    and logical_id: "py_getitem event ''LogicalResourceId'' = Inr logical_resource_id"
    and response_url: "py_getitem event ''ResponseURL'' = Inr response_url"
    and url_ok: "Request_init env response_url = None"
  shows "create_gsi_1 env ctx num_retries wait_seconds h =
           (Inr PNone, h @ concat (replicate (nat (num_retries + 1))
                                     [UpdateTable (gsi_1_update env), Sleep wait_seconds]))
       \<and> create_gsi_2 env ctx num_retries wait_seconds h =
           (Inr PNone, h @ concat (replicate (nat (num_retries + 1))
                                     [UpdateTable (gsi_2_update env), Sleep wait_seconds]))
       \<and> lambda_handler env ctx event h =
           Some (Inr PNone,
             h @ [Sleep 1, DescribeTable (TABLE_NAME env), Sleep 1, DescribeTable (TABLE_NAME env)]
               @ concat (replicate 6 [UpdateTable (gsi_1_update env), Sleep 30])
               @ [Sleep 1, DescribeTable (TABLE_NAME env), Sleep 1, DescribeTable (TABLE_NAME env)]
               @ concat (replicate 6 [UpdateTable (gsi_2_update env), Sleep 30])
               @ [Sleep 1, DescribeTable (TABLE_NAME env), Sleep 1, DescribeTable (TABLE_NAME env)]
               @ [UrlOpen (put_request response_url (dumps_encode env
                    (response_dict ctx ''SUCCESS'' (default_reason ctx)
                       stack_id request_id logical_resource_id)))])"
proof (intro conjI)
  show "create_gsi_1 env ctx num_retries wait_seconds h =
           (Inr PNone, h @ concat (replicate (nat (num_retries + 1))
                                     [UpdateTable (gsi_1_update env), Sleep wait_seconds]))"
    unfolding create_gsi_1_def create_gsi_1_body_def [abs_def]
    using function_retry_exhausts [OF fails time ws] by simp
  show "create_gsi_2 env ctx num_retries wait_seconds h =
           (Inr PNone, h @ concat (replicate (nat (num_retries + 1))
                                     [UpdateTable (gsi_2_update env), Sleep wait_seconds]))"
    unfolding create_gsi_2_def create_gsi_2_body_def [abs_def]
    using function_retry_exhausts [OF fails time ws] by simp
  have c1: "create_gsi_1 env ctx 5 30 h' =
           (Inr PNone, h' @ concat (replicate 6 [UpdateTable (gsi_1_update env), Sleep 30]))" for h'
    unfolding create_gsi_1_def create_gsi_1_body_def [abs_def]
    using function_retry_exhausts [OF fails time, of 30 "gsi_1_update env" 5 h'] by simp
  have c2: "create_gsi_2 env ctx 5 30 h' =
           (Inr PNone, h' @ concat (replicate 6 [UpdateTable (gsi_2_update env), Sleep 30]))" for h'
    unfolding create_gsi_2_def create_gsi_2_body_def [abs_def]
    using function_retry_exhausts [OF fails time, of 30 "gsi_2_update env" 5 h'] by simp
  note w = table_active_wait_ready [of env "TABLE_NAME env", OF table_ready gsi_ready]
  have a: "add_indexes env ctx h =
     Some (Inr PNone,
             h @ [Sleep 1, DescribeTable (TABLE_NAME env), Sleep 1, DescribeTable (TABLE_NAME env)]
               @ concat (replicate 6 [UpdateTable (gsi_1_update env), Sleep 30])
               @ [Sleep 1, DescribeTable (TABLE_NAME env), Sleep 1, DescribeTable (TABLE_NAME env)]
               @ concat (replicate 6 [UpdateTable (gsi_2_update env), Sleep 30])
               @ [Sleep 1, DescribeTable (TABLE_NAME env), Sleep 1, DescribeTable (TABLE_NAME env)])"
    unfolding add_indexes_def by (simp only: w c1 c2 option.case prod.case sum.case append_assoc)
  note s = send_response_sends [OF stack_id request_id logical_id response_url url_ok,
              of ctx "''SUCCESS''" None]
  show "lambda_handler env ctx event h =
           Some (Inr PNone,
             h @ [Sleep 1, DescribeTable (TABLE_NAME env), Sleep 1, DescribeTable (TABLE_NAME env)]
               @ concat (replicate 6 [UpdateTable (gsi_1_update env), Sleep 30])
               @ [Sleep 1, DescribeTable (TABLE_NAME env), Sleep 1, DescribeTable (TABLE_NAME env)]
               @ concat (replicate 6 [UpdateTable (gsi_2_update env), Sleep 30])
               @ [Sleep 1, DescribeTable (TABLE_NAME env), Sleep 1, DescribeTable (TABLE_NAME env)]
               @ [UrlOpen (put_request response_url (dumps_encode env
                    (response_dict ctx ''SUCCESS'' (default_reason ctx)
                       stack_id request_id logical_resource_id)))])"
    unfolding lambda_handler_def notify_unfold
    by (simp only: a s option.case prod.case sum.case append_assoc)
qed

theorem retries_exhausted_then_success_sent_witness:
  "lambda_handler (sample_env\<lparr>update_table := \<lambda>kwargs h. Inl throttled\<rparr>) sample_ctx sample_event [] =
     Some (Inr PNone,
       [Sleep 1, DescribeTable (PStr ''orders''), Sleep 1, DescribeTable (PStr ''orders'')]
       @ concat (replicate 6
           [UpdateTable (gsi_1_update (sample_env\<lparr>update_table := \<lambda>kwargs h. Inl throttled\<rparr>)), Sleep 30])
       @ [Sleep 1, DescribeTable (PStr ''orders''), Sleep 1, DescribeTable (PStr ''orders'')]
       @ concat (replicate 6
           [UpdateTable (gsi_2_update (sample_env\<lparr>update_table := \<lambda>kwargs h. Inl throttled\<rparr>)), Sleep 30])
       @ [Sleep 1, DescribeTable (PStr ''orders''), Sleep 1, DescribeTable (PStr ''orders'')]
       @ [UrlOpen \<lparr>url = PStr ''https://cfn.example/response'', method = ''PUT'',
            data = ''Status=SUCCESS;Reason=See the details in CloudWatch Log Stream: stream-1;PhysicalResourceId=stream-1;StackId=stack-1;RequestId=request-1;LogicalResourceId=AddGsi;'',
            headers = [(''content-type'', PStr []), (''content-length'', PInt 162)]\<rparr>])"
proof -
  let ?env = "sample_env\<lparr>update_table := \<lambda>kwargs h. Inl throttled\<rparr>"
  have fails: "\<And>kwargs h. \<exists>e. update_table ?env kwargs h = Inl e
                 \<and> \<not> str_contains ''already exists'' (exn_str e)"
    by (simp add: throttled_unrelated)
  have time: "\<And>h. 10000 < get_remaining_time_in_millis sample_ctx h"
    by (simp add: sample_ctx_def)
  have ws: "(0::int) \<le> 30" by simp
  have name: "TABLE_NAME ?env = PStr ''orders''" by (simp add: sample_env_def)
  have ok: "Request_init ?env (PStr ''https://cfn.example/response'') = None"
    by (simp add: sample_env_def)
  have enc: "dumps_encode sample_env (response_dict sample_ctx ''SUCCESS'' (default_reason sample_ctx)
               (PStr ''stack-1'') (PStr ''request-1'') (PStr ''AddGsi'')) =
             ''Status=SUCCESS;Reason=See the details in CloudWatch Log Stream: stream-1;PhysicalResourceId=stream-1;StackId=stack-1;RequestId=request-1;LogicalResourceId=AddGsi;''"
    by (simp add: sample_env_def response_dict_def default_reason_def sample_ctx_def)
  from retries_exhausted_then_success_sent [of ?env sample_ctx 30 sample_event, OF fails time ws
         sample_ready(1) sample_ready(2) sample_event_items ok, of 5 "[]"]
  show ?thesis
    by (simp add: name put_request_def enc)
qed

text \<open>
  Claim C2. The claim says that both status checks answer \<^verbatim>\<open>True\<close> when reading the
  status raises. \<^verbatim>\<open>check_gsi_status\<close> does (\<open>check_gsi_status_fail_open\<close>).
  \<^verbatim>\<open>check_table_status\<close> sets \<^verbatim>\<open>table_active = True\<close> in its \<^verbatim>\<open>except\<close> branch and then
  raises \<^verbatim>\<open>UnboundLocalError\<close> at line 54, where it logs the variable that the failed
  read never bound (\<open>check_table_status_unbound\<close>). Here both run on a response without
  \<^verbatim>\<open>TableStatus\<close> and without \<^verbatim>\<open>IndexStatus\<close>.
\<close>

theorem check_table_status_missing_status_raises:
  "check_table_status
     (sample_env\<lparr>describe_table := \<lambda>tablename h. Inr (PDict [(''Table'', PDict
         [(''TableName'', PStr ''orders''),
          (''GlobalSecondaryIndexes'', PList [PDict [(''IndexName'', PStr ''by_key'')]])])])\<rparr>)
     (PStr ''orders'') [] =
       (Inl (PyExn ''UnboundLocalError''
          ''local variable 'table_status' referenced before assignment''),
        [DescribeTable (PStr ''orders'')])
   \<and> check_gsi_status
     (sample_env\<lparr>describe_table := \<lambda>tablename h. Inr (PDict [(''Table'', PDict
         [(''TableName'', PStr ''orders''),
          (''GlobalSecondaryIndexes'', PList [PDict [(''IndexName'', PStr ''by_key'')]])])])\<rparr>)
     (PStr ''orders'') [] =
       (Inr True, [DescribeTable (PStr ''orders'')])"
  by (simp add: check_table_status_def check_gsi_status_def read_table_status_def
        read_gsi_status_def py_getitem_def py_in_def py_iter_def)




text \<open>
  Claim C4. At the start of any attempt of the retry wrapper, a remaining time of at
  most 10000 ms makes the wrapper raise at once: the wrapped function is not called and
  the history of outside calls is unchanged.
\<close>

theorem function_retry_aborts_when_time_is_short:
  assumes "retry \<le> num_retries"
    and "get_remaining_time_in_millis ctx h \<le> 10000"
  shows "wrapper_loop fn ctx num_retries wait_seconds retry h =
           (Inl (PyExn ''Exception'' ''Function was about to timeout''), h)"
  using assms by (subst wrapper_loop.simps) simp

theorem function_retry_aborts_when_time_is_short_witness:
  "wrapper_loop (create_gsi_1_body sample_env)
       (sample_ctx\<lparr>get_remaining_time_in_millis := \<lambda>h. 10000\<rparr>) 5 30 0 [] =
     (Inl (PyExn ''Exception'' ''Function was about to timeout''), [])"
  using function_retry_aborts_when_time_is_short
          [where retry = 0 and num_retries = 5 and h = "[]" and wait_seconds = 30
             and ctx = "sample_ctx\<lparr>get_remaining_time_in_millis := \<lambda>h. 10000\<rparr>"
             and fn = "create_gsi_1_body sample_env"]
  by simp

text \<open>
  Claim C5. When an attempt of the wrapped function raises an error whose text contains
  \<^verbatim>\<open>already exists\<close>, the wrapper returns \<^verbatim>\<open>None\<close> with the history the attempt left:
  no sleep and no further attempt. So a creation whose \<^verbatim>\<open>update_table\<close> call is refused
  because the index exists returns normally after that one call.
\<close>

theorem already_exists_returns_at_once:
  assumes "retry \<le> num_retries"
    and "10000 < get_remaining_time_in_millis ctx h"
    and "str_contains ''already exists'' (exn_str e)"
  shows "(fn h = (Inl e, h1) \<longrightarrow>
            wrapper_loop fn ctx num_retries wait_seconds retry h = (Inr PNone, h1))
       \<and> (update_table env (gsi_1_update env) h = Inl e \<longrightarrow>
            wrapper_loop (create_gsi_1_body env) ctx num_retries wait_seconds retry h =
              (Inr PNone, h @ [UpdateTable (gsi_1_update env)]))
       \<and> (update_table env (gsi_2_update env) h = Inl e \<longrightarrow>
            wrapper_loop (create_gsi_2_body env) ctx num_retries wait_seconds retry h =
              (Inr PNone, h @ [UpdateTable (gsi_2_update env)]))"
proof (intro conjI impI)
  assume "fn h = (Inl e, h1)"
  then show "wrapper_loop fn ctx num_retries wait_seconds retry h = (Inr PNone, h1)"
    using assms(3) by (rule wrapper_loop_already_exists [OF assms(1,2)])
next
  assume "update_table env (gsi_1_update env) h = Inl e"
  then have "create_gsi_1_body env h = (Inl e, h @ [UpdateTable (gsi_1_update env)])"
    by (simp add: create_gsi_1_body_def update_call_def)
  then show "wrapper_loop (create_gsi_1_body env) ctx num_retries wait_seconds retry h =
               (Inr PNone, h @ [UpdateTable (gsi_1_update env)])"
    using assms(3) by (rule wrapper_loop_already_exists [OF assms(1,2)])
next
  assume "update_table env (gsi_2_update env) h = Inl e"
  then have "create_gsi_2_body env h = (Inl e, h @ [UpdateTable (gsi_2_update env)])"
    by (simp add: create_gsi_2_body_def update_call_def)
  then show "wrapper_loop (create_gsi_2_body env) ctx num_retries wait_seconds retry h =
               (Inr PNone, h @ [UpdateTable (gsi_2_update env)])"
    using assms(3) by (rule wrapper_loop_already_exists [OF assms(1,2)])
qed

theorem already_exists_returns_at_once_witness:
  "wrapper_loop (create_gsi_1_body (sample_env\<lparr>update_table := \<lambda>kwargs h. Inl index_exists\<rparr>))
       sample_ctx 5 30 0 [] =
     (Inr PNone,
      [UpdateTable (gsi_1_update (sample_env\<lparr>update_table := \<lambda>kwargs h. Inl index_exists\<rparr>))])
   \<and> wrapper_loop (create_gsi_2_body (sample_env\<lparr>update_table := \<lambda>kwargs h. Inl index_exists\<rparr>))
       sample_ctx 5 30 0 [] =
     (Inr PNone,
      [UpdateTable (gsi_2_update (sample_env\<lparr>update_table := \<lambda>kwargs h. Inl index_exists\<rparr>))])"
proof -
  let ?env = "sample_env\<lparr>update_table := \<lambda>kwargs h. Inl index_exists\<rparr>"
  have retry: "(0::int) \<le> 5" by simp
  have time: "10000 < get_remaining_time_in_millis sample_ctx []"
    by (simp add: sample_ctx_def)
  have raised: "update_table ?env kwargs [] = Inl index_exists" for kwargs
    by simp
  from already_exists_returns_at_once [OF retry time index_exists_related,
         where env = ?env and wait_seconds = 30] raised
  show ?thesis by simp
qed

text \<open>
  Claim C6. Whenever \<^verbatim>\<open>send_response\<close> submits a request, it is a \<^verbatim>\<open>PUT\<close> to the event's
  \<^verbatim>\<open>ResponseURL\<close> with an empty \<^verbatim>\<open>content-type\<close> header, and its body encodes the
  dictionary with exactly the six keys \<^verbatim>\<open>Status\<close>, \<^verbatim>\<open>Reason\<close>, \<^verbatim>\<open>PhysicalResourceId\<close>,
  \<^verbatim>\<open>StackId\<close>, \<^verbatim>\<open>RequestId\<close>, \<^verbatim>\<open>LogicalResourceId\<close>, the last three being the event's
  own values. It does submit one when the event has the four keys and the request can be
  built.
\<close>

theorem send_response_payload:
  "(py_getitem event ''StackId'' = Inr stack_id
      \<and> py_getitem event ''RequestId'' = Inr request_id
      \<and> py_getitem event ''LogicalResourceId'' = Inr logical_resource_id
      \<and> py_getitem event ''ResponseURL'' = Inr response_url
      \<and> Request_init env response_url = None
    \<longrightarrow> (\<exists>req. send_response env ctx event status reason h = (Inr PNone, h @ [UrlOpen req])))
   \<and> (\<forall>r h'. send_response env ctx event status reason h = (r, h') \<longrightarrow>
         h' = h \<or>
         (\<exists>req reason1 sid rid lid u.
             h' = h @ [UrlOpen req]
           \<and> py_getitem event ''StackId'' = Inr sid
           \<and> py_getitem event ''RequestId'' = Inr rid
           \<and> py_getitem event ''LogicalResourceId'' = Inr lid
           \<and> py_getitem event ''ResponseURL'' = Inr u
           \<and> url req = u
           \<and> method req = ''PUT''
           \<and> map_of (headers req) ''content-type'' = Some (PStr [])
           \<and> data req = dumps_encode env
                   (PDict [(''Status'', PStr status),
                           (''Reason'', PStr reason1),
                           (''PhysicalResourceId'', PStr (log_stream_name ctx)),
                           (''StackId'', sid),
                           (''RequestId'', rid),
                           (''LogicalResourceId'', lid)])))"
proof (intro conjI impI allI)
  assume "py_getitem event ''StackId'' = Inr stack_id
      \<and> py_getitem event ''RequestId'' = Inr request_id
      \<and> py_getitem event ''LogicalResourceId'' = Inr logical_resource_id
      \<and> py_getitem event ''ResponseURL'' = Inr response_url
      \<and> Request_init env response_url = None"
  then show "\<exists>req. send_response env ctx event status reason h = (Inr PNone, h @ [UrlOpen req])"
    by (simp add: send_response_sends)
next
  fix r h'
  assume "send_response env ctx event status reason h = (r, h')"
  then show "h' = h \<or>
         (\<exists>req reason1 sid rid lid u.
             h' = h @ [UrlOpen req]
           \<and> py_getitem event ''StackId'' = Inr sid
           \<and> py_getitem event ''RequestId'' = Inr rid
           \<and> py_getitem event ''LogicalResourceId'' = Inr lid
           \<and> py_getitem event ''ResponseURL'' = Inr u
           \<and> url req = u
           \<and> method req = ''PUT''
           \<and> map_of (headers req) ''content-type'' = Some (PStr [])
           \<and> data req = dumps_encode env
                   (PDict [(''Status'', PStr status),
                           (''Reason'', PStr reason1),
                           (''PhysicalResourceId'', PStr (log_stream_name ctx)),
                           (''StackId'', sid),
                           (''RequestId'', rid),
                           (''LogicalResourceId'', lid)]))"
    unfolding send_response_def Let_def response_dict_def
    by (auto simp add: put_request_def split: sum.splits option.splits)
qed

theorem send_response_payload_witness:
  "\<exists>req. send_response sample_env sample_ctx sample_event ''SUCCESS'' None [] =
            (Inr PNone, [UrlOpen req])
       \<and> url req = PStr ''https://cfn.example/response''
       \<and> method req = ''PUT''
       \<and> map_of (headers req) ''content-type'' = Some (PStr [])
       \<and> data req = ''Status=SUCCESS;Reason=See the details in CloudWatch Log Stream: stream-1;PhysicalResourceId=stream-1;StackId=stack-1;RequestId=request-1;LogicalResourceId=AddGsi;''"
proof -
  note payload = send_response_payload [where event = sample_event and env = sample_env
      and ctx = sample_ctx and status = "''SUCCESS''" and reason = None and h = "[]"
      and stack_id = "PStr ''stack-1''" and request_id = "PStr ''request-1''"
      and logical_resource_id = "PStr ''AddGsi''"
      and response_url = "PStr ''https://cfn.example/response''"]
  have ok: "Request_init sample_env (PStr ''https://cfn.example/response'') = None"
    by (simp add: sample_env_def)
  from payload sample_event_items ok
  obtain req where sent:
    "send_response sample_env sample_ctx sample_event ''SUCCESS'' None [] =
       (Inr PNone, [] @ [UrlOpen req])"
    by blast
  with payload sample_event_items
  obtain reason1 where
      "url req = PStr ''https://cfn.example/response''"
      "method req = ''PUT''"
      "map_of (headers req) ''content-type'' = Some (PStr [])"
      "data req = dumps_encode sample_env
         (PDict [(''Status'', PStr ''SUCCESS''),
                 (''Reason'', PStr reason1),
                 (''PhysicalResourceId'', PStr (log_stream_name sample_ctx)),
                 (''StackId'', PStr ''stack-1''),
                 (''RequestId'', PStr ''request-1''),
                 (''LogicalResourceId'', PStr ''AddGsi'')])"
    by auto
  moreover have "data req = ''Status=SUCCESS;Reason=See the details in CloudWatch Log Stream: stream-1;PhysicalResourceId=stream-1;StackId=stack-1;RequestId=request-1;LogicalResourceId=AddGsi;''"
    using sent sample_event_items ok
    by (auto simp add: send_response_sends put_request_def response_dict_def default_reason_def
          sample_env_def sample_ctx_def)
  ultimately show ?thesis using sent by auto
qed

text \<open>
  Claim C7. Once the two creations and the last wait have returned, \<^verbatim>\<open>lambda_handler\<close>
  is the notification step. It calls \<^verbatim>\<open>send_response\<close> once with status \<^verbatim>\<open>SUCCESS\<close>. When
  that call returns, no other call is made, the outcome is \<^verbatim>\<open>None\<close> and the one request
  ends the history. When it raises (it then has sent nothing), exactly one more call is
  made, with status \<^verbatim>\<open>FAILURE\<close>; that call raises the same exception, which leaves the
  handler. The calls are \<^verbatim>\<open>SUCCESS\<close> alone or \<^verbatim>\<open>SUCCESS\<close> then \<^verbatim>\<open>FAILURE\<close>, the second
  exactly when the first call raises, and at most one request is submitted in all.
\<close>

theorem one_success_then_one_failure:
  assumes "add_indexes env ctx h = Some (Inr v, h5)"
  shows "lambda_handler env ctx event h = Some (fst (notify_attempts env ctx event h5))
     \<and> (\<forall>h6. send_response env ctx event ''SUCCESS'' None h5 = (Inr PNone, h6) \<longrightarrow>
            notify_attempts env ctx event h5 = ((Inr PNone, h6), [''SUCCESS''])
          \<and> (\<exists>req. h6 = h5 @ [UrlOpen req]))
     \<and> (\<forall>e h6. send_response env ctx event ''SUCCESS'' None h5 = (Inl e, h6) \<longrightarrow>
            h6 = h5
          \<and> send_response env ctx event ''FAILURE'' None h5 = (Inl e, h5)
          \<and> notify_attempts env ctx event h5 = ((Inl e, h5), [''SUCCESS'', ''FAILURE'']))
     \<and> (snd (notify_attempts env ctx event h5) = [''SUCCESS'']
          \<or> snd (notify_attempts env ctx event h5) = [''SUCCESS'', ''FAILURE''])
     \<and> (snd (notify_attempts env ctx event h5) = [''SUCCESS'', ''FAILURE'']
          \<longleftrightarrow> (\<exists>e. send_response env ctx event ''SUCCESS'' None h5 = (Inl e, h5)))
     \<and> length (filter is_put (snd (fst (notify_attempts env ctx event h5))))
          \<le> length (filter is_put h5) + 1"
proof (intro conjI allI impI)
  show "lambda_handler env ctx event h = Some (fst (notify_attempts env ctx event h5))"
    using assms by (simp add: lambda_handler_def notify_def)
  show "snd (notify_attempts env ctx event h5) = [''SUCCESS'']
          \<or> snd (notify_attempts env ctx event h5) = [''SUCCESS'', ''FAILURE'']"
    by (rule notify_attempts_shape)
  show "length (filter is_put (snd (fst (notify_attempts env ctx event h5))))
          \<le> length (filter is_put h5) + 1"
    using notify_puts_at_most_once [of env ctx event h5] by (simp add: notify_def)
  show "snd (notify_attempts env ctx event h5) = [''SUCCESS'', ''FAILURE'']
          \<longleftrightarrow> (\<exists>e. send_response env ctx event ''SUCCESS'' None h5 = (Inl e, h5))"
  proof
    assume two: "snd (notify_attempts env ctx event h5) = [''SUCCESS'', ''FAILURE'']"
    from send_response_outcome [of env ctx event "''SUCCESS''" None h5]
    show "\<exists>e. send_response env ctx event ''SUCCESS'' None h5 = (Inl e, h5)"
    proof
      assume "\<exists>req. send_response env ctx event ''SUCCESS'' None h5 =
                (Inr PNone, h5 @ [UrlOpen req])"
      then obtain req where "send_response env ctx event ''SUCCESS'' None h5 =
                (Inr PNone, h5 @ [UrlOpen req])" ..
      from notify_attempts_success [OF this] two show ?thesis by simp
    qed
  next
    assume "\<exists>e. send_response env ctx event ''SUCCESS'' None h5 = (Inl e, h5)"
    then obtain e where "send_response env ctx event ''SUCCESS'' None h5 = (Inl e, h5)" ..
    from notify_attempts_fallback(3) [OF this]
    show "snd (notify_attempts env ctx event h5) = [''SUCCESS'', ''FAILURE'']" by simp
  qed
next
  fix h6
  assume s: "send_response env ctx event ''SUCCESS'' None h5 = (Inr PNone, h6)"
  then show "notify_attempts env ctx event h5 = ((Inr PNone, h6), [''SUCCESS''])"
    by (rule notify_attempts_success)
  from s show "\<exists>req. h6 = h5 @ [UrlOpen req]"
    using send_response_returns_after_put by blast
next
  fix e h6
  assume s: "send_response env ctx event ''SUCCESS'' None h5 = (Inl e, h6)"
  then show "h6 = h5" by (rule notify_attempts_fallback(1))
  from s show "send_response env ctx event ''FAILURE'' None h5 = (Inl e, h5)"
    by (rule notify_attempts_fallback(2))
  from s show "notify_attempts env ctx event h5 = ((Inl e, h5), [''SUCCESS'', ''FAILURE''])"
    by (rule notify_attempts_fallback(3))
qed

theorem one_success_then_one_failure_witness:
  "lambda_handler sample_env sample_ctx sample_event [] =
     Some (Inr PNone, sample_history @ [UrlOpen sample_put])
   \<and> notify_attempts sample_env sample_ctx sample_event sample_history =
     ((Inr PNone, sample_history @ [UrlOpen sample_put]), [''SUCCESS''])
   \<and> lambda_handler sample_env sample_ctx (PDict [(''RequestType'', PStr ''Create'')]) [] =
     Some (Inl (KeyError ''StackId''), sample_history)
   \<and> notify_attempts sample_env sample_ctx (PDict [(''RequestType'', PStr ''Create'')])
       sample_history =
     ((Inl (KeyError ''StackId''), sample_history), [''SUCCESS'', ''FAILURE''])"
proof -
  have a: "add_indexes sample_env sample_ctx [] = Some (Inr PNone, sample_history)"
    using sample_add_indexes by (simp add: sample_history_def)
  note good = one_success_then_one_failure [OF a, of sample_event]
  note bad = one_success_then_one_failure [OF a, of "PDict [(''RequestType'', PStr ''Create'')]"]
  have s: "send_response sample_env sample_ctx sample_event ''SUCCESS'' None sample_history =
             (Inr PNone, sample_history @ [UrlOpen sample_put])"
    by (simp add: sample_send)
  have f: "send_response sample_env sample_ctx (PDict [(''RequestType'', PStr ''Create'')])
             ''SUCCESS'' None sample_history = (Inl (KeyError ''StackId''), sample_history)"
    by (simp add: send_response_def py_getitem_def)
  from good s have "lambda_handler sample_env sample_ctx sample_event [] =
       Some (Inr PNone, sample_history @ [UrlOpen sample_put])
     \<and> notify_attempts sample_env sample_ctx sample_event sample_history =
       ((Inr PNone, sample_history @ [UrlOpen sample_put]), [''SUCCESS''])"
    by simp
  moreover from bad f
  have "lambda_handler sample_env sample_ctx (PDict [(''RequestType'', PStr ''Create'')]) [] =
       Some (Inl (KeyError ''StackId''), sample_history)
     \<and> notify_attempts sample_env sample_ctx (PDict [(''RequestType'', PStr ''Create'')])
         sample_history =
       ((Inl (KeyError ''StackId''), sample_history), [''SUCCESS'', ''FAILURE''])"
    by simp
  ultimately show ?thesis by simp
qed



text \<open>
  Claim C9. With a positive \<^verbatim>\<open>wait_seconds\<close> that converts to a float: if the table
  check answers not active at the first two polls and active at the third, the table
  loop of \<^verbatim>\<open>table_active_wait\<close> returns after exactly three sleeps and three checks. With
  any positive \<^verbatim>\<open>wait_seconds\<close>: if the check answers active at some poll \<open>n\<close> that is still
  to come, the loop ends, having made no poll beyond that one. A \<^verbatim>\<open>wait_seconds\<close> that does
  not convert to a float ends the loop at once with \<^verbatim>\<open>OverflowError\<close>.
\<close>

theorem table_wait_terminates:
  assumes "0 < wait_seconds"
  shows "(wait_seconds < float_limit
        \<and> (\<forall>h'. polls h' = polls h \<longrightarrow> fst (check_table_status env tn h') = Inr False)
        \<and> (\<forall>h'. polls h' = polls h + 1 \<longrightarrow> fst (check_table_status env tn h') = Inr False)
        \<and> (\<forall>h'. polls h' = polls h + 2 \<longrightarrow> fst (check_table_status env tn h') = Inr True)
       \<longrightarrow> (\<exists>w0 w1 w2. wait_loop env (check_table_status env) tn wait_seconds False 0 h =
              Some (Inr (), h @ [Sleep w0, DescribeTable tn, Sleep w1, DescribeTable tn,
                                 Sleep w2, DescribeTable tn])))
     \<and> (\<forall>n\<ge>polls h.
          (\<forall>h'. polls h' = n \<longrightarrow> fst (check_table_status env tn h') = Inr True)
          \<longrightarrow> (\<exists>r h'. wait_loop env (check_table_status env) tn wait_seconds False 0 h = Some (r, h')
                     \<and> polls h' \<le> n + 1))
     \<and> (float_limit \<le> wait_seconds
          \<longrightarrow> wait_loop env (check_table_status env) tn wait_seconds False 0 h =
                Some (Inl (PyExn ''OverflowError'' ''int too large to convert to float''), h))"
proof (intro conjI impI allI)
  assume "float_limit \<le> wait_seconds"
  then show "wait_loop env (check_table_status env) tn wait_seconds False 0 h =
                Some (Inl (PyExn ''OverflowError'' ''int too large to convert to float''), h)"
    by (rule wait_loop_overflow) simp
next
  assume "wait_seconds < float_limit
        \<and> (\<forall>h'. polls h' = polls h \<longrightarrow> fst (check_table_status env tn h') = Inr False)
        \<and> (\<forall>h'. polls h' = polls h + 1 \<longrightarrow> fst (check_table_status env tn h') = Inr False)
        \<and> (\<forall>h'. polls h' = polls h + 2 \<longrightarrow> fst (check_table_status env tn h') = Inr True)"
  then show "\<exists>w0 w1 w2. wait_loop env (check_table_status env) tn wait_seconds False 0 h =
              Some (Inr (), h @ [Sleep w0, DescribeTable tn, Sleep w1, DescribeTable tn,
                                 Sleep w2, DescribeTable tn])"
    using assms by (intro wait_loop_three_polls) (simp_all add: check_table_status_history)
next
  fix n
  assume n: "polls h \<le> n"
    and "\<forall>h'. polls h' = n \<longrightarrow> fst (check_table_status env tn h') = Inr True"
  then have active: "\<And>h'. polls h' = n \<Longrightarrow> fst (check_table_status env tn h') = Inr True"
    by blast
  from wait_loop_terminates [where check = "check_table_status env" and tn = tn and n = n
         and h = h and ws = wait_seconds and a = False and retry = 0 and env = env,
         OF check_table_status_history active n]
  show "\<exists>r h'. wait_loop env (check_table_status env) tn wait_seconds False 0 h = Some (r, h')
               \<and> polls h' \<le> n + 1"
    by blast
qed

theorem table_wait_terminates_witness:
  "wait_loop (sample_env\<lparr>describe_table := slow_table\<rparr>) (check_table_status (sample_env\<lparr>describe_table := slow_table\<rparr>))
       (PStr ''orders'') 15 False 0 [] =
     Some (Inr (),
       [Sleep 1, DescribeTable (PStr ''orders''), Sleep 1, DescribeTable (PStr ''orders''),
        Sleep 1, DescribeTable (PStr ''orders'')])
   \<and> (\<exists>w0 w1 w2.
         wait_loop (sample_env\<lparr>describe_table := slow_table\<rparr>) (check_table_status (sample_env\<lparr>describe_table := slow_table\<rparr>))
             (PStr ''orders'') 15 False 0 [] =
           Some (Inr (),
             [Sleep w0, DescribeTable (PStr ''orders''), Sleep w1, DescribeTable (PStr ''orders''),
              Sleep w2, DescribeTable (PStr ''orders'')]))
   \<and> (\<exists>r h'. wait_loop (sample_env\<lparr>describe_table := slow_table\<rparr>) (check_table_status (sample_env\<lparr>describe_table := slow_table\<rparr>))
                 (PStr ''orders'') 15 False 0 [] = Some (r, h') \<and> polls h' \<le> 3)"
proof -
  let ?env = "sample_env\<lparr>describe_table := slow_table\<rparr>"
  let ?tn = "PStr ''orders''"
  have pos: "(0::int) < 15" by simp
  have lim: "(15::int) < float_limit" by (simp add: float_limit_def)
  note t = table_wait_terminates [OF pos, of "[]" ?env ?tn]
  have p0: "\<forall>h'. polls h' = polls [] \<longrightarrow> fst (check_table_status ?env ?tn h') = Inr False"
    and p1: "\<forall>h'. polls h' = polls [] + 1 \<longrightarrow> fst (check_table_status ?env ?tn h') = Inr False"
    and p2: "\<forall>h'. polls h' = polls [] + 2 \<longrightarrow> fst (check_table_status ?env ?tn h') = Inr True"
    by (simp_all add: slow_table_status polls_def)
  from t lim p0 p1 p2 obtain w0 w1 w2 where run:
    "wait_loop ?env (check_table_status ?env) ?tn 15 False 0 [] =
       Some (Inr (), [] @ [Sleep w0, DescribeTable ?tn, Sleep w1, DescribeTable ?tn,
                           Sleep w2, DescribeTable ?tn])"
    by blast
  have c0: "check_table_status ?env ?tn ([] @ [Sleep 1]) = (Inr False, [Sleep 1, DescribeTable ?tn])"
    using check_table_status_history [of ?env ?tn "[Sleep 1]"]
    by (simp add: prod_eq_iff slow_table_status polls_def)
  have c1: "check_table_status ?env ?tn ([Sleep 1, DescribeTable ?tn] @ [Sleep 1]) =
              (Inr False, [Sleep 1, DescribeTable ?tn, Sleep 1, DescribeTable ?tn])"
    using check_table_status_history [of ?env ?tn "[Sleep 1, DescribeTable ?tn, Sleep 1]"]
    by (simp add: prod_eq_iff slow_table_status polls_def)
  have c2: "check_table_status ?env ?tn
              ([Sleep 1, DescribeTable ?tn, Sleep 1, DescribeTable ?tn] @ [Sleep 1]) =
              (Inr True, [Sleep 1, DescribeTable ?tn, Sleep 1, DescribeTable ?tn,
                          Sleep 1, DescribeTable ?tn])"
    using check_table_status_history
            [of ?env ?tn "[Sleep 1, DescribeTable ?tn, Sleep 1, DescribeTable ?tn, Sleep 1]"]
    by (simp add: prod_eq_iff slow_table_status polls_def)
  have e0: "exp_wait ?env 15 (cap_retry 15 0) = Inr 1" by (simp add: cap_retry_def default_backoff(1))
  have e1: "exp_wait ?env 15 (cap_retry 15 1) = Inr 1" by (simp add: cap_retry_def default_backoff(2))
  have e2: "exp_wait ?env 15 (cap_retry 15 2) = Inr 1" by (simp add: cap_retry_def default_backoff(3))
  have one: "(0::int) \<le> 1" by simp
  have "wait_loop ?env (check_table_status ?env) ?tn 15 False 0 [] =
          Some (Inr (), [Sleep 1, DescribeTable ?tn, Sleep 1, DescribeTable ?tn,
                         Sleep 1, DescribeTable ?tn])"
    using wait_loop_poll [where check = "check_table_status ?env" and tn = ?tn and h = "[]",
            OF e0 one c0]
      wait_loop_poll [where check = "check_table_status ?env" and tn = ?tn
            and h = "[Sleep 1, DescribeTable ?tn]", OF e1 one c1]
      wait_loop_poll [where check = "check_table_status ?env" and tn = ?tn
            and h = "[Sleep 1, DescribeTable ?tn, Sleep 1, DescribeTable ?tn]", OF e2 one c2]
    by (simp add: cap_retry_def wait_loop_active)
  moreover from t p2 have "\<exists>r h'. wait_loop ?env (check_table_status ?env) ?tn 15 False 0 [] =
      Some (r, h') \<and> polls h' \<le> 3"
    by (auto simp add: polls_def)
  moreover from run have "\<exists>w0 w1 w2.
         wait_loop ?env (check_table_status ?env) ?tn 15 False 0 [] =
           Some (Inr (), [Sleep w0, DescribeTable ?tn, Sleep w1, DescribeTable ?tn,
                          Sleep w2, DescribeTable ?tn])"
    by auto
  ultimately show ?thesis by blast
qed

text \<open>
  Claim C10. The outcome of \<^verbatim>\<open>send_response\<close>, and of the whole handler, is the same
  whatever \<^verbatim>\<open>urlopen\<close> answers. When \<^verbatim>\<open>send_response\<close> raises it has not submitted a
  request, so the raise is not one of \<^verbatim>\<open>urlopen\<close>; and when the request of the success
  notification fails in \<^verbatim>\<open>urlopen\<close>, the notification step returns normally with that
  single request: the fallback does not run.
\<close>

theorem urlopen_failure_is_swallowed:
  "send_response (env\<lparr>urlopen := f\<rparr>) ctx event status reason h =
     send_response env ctx event status reason h
   \<and> lambda_handler (env\<lparr>urlopen := f\<rparr>) ctx event h = lambda_handler env ctx event h
   \<and> (\<forall>e h'. send_response env ctx event status reason h = (Inl e, h') \<longrightarrow> h' = h)
   \<and> (\<forall>req e. send_response env ctx event ''SUCCESS'' None h = (Inr PNone, h @ [UrlOpen req])
          \<and> urlopen env req h = Inl e
        \<longrightarrow> notify env ctx event h = (Inr PNone, h @ [UrlOpen req]))"
proof (intro conjI allI impI)
  show "send_response (env\<lparr>urlopen := f\<rparr>) ctx event status reason h =
          send_response env ctx event status reason h"
    by (simp add: send_response_urlopen)
  show "lambda_handler (env\<lparr>urlopen := f\<rparr>) ctx event h = lambda_handler env ctx event h"
    by (simp add: lambda_handler_urlopen)
next
  fix e h'
  assume "send_response env ctx event status reason h = (Inl e, h')"
  then show "h' = h" by (rule send_response_raises_before_put)
next
  fix req e
  assume "send_response env ctx event ''SUCCESS'' None h = (Inr PNone, h @ [UrlOpen req])
          \<and> urlopen env req h = Inl e"
  then show "notify env ctx event h = (Inr PNone, h @ [UrlOpen req])"
    by (simp add: notify_success)
qed

theorem urlopen_failure_is_swallowed_witness:
  "lambda_handler (sample_env\<lparr>urlopen := \<lambda>request h. Inl unreachable\<rparr>) sample_ctx sample_event [] =
     Some (Inr PNone, sample_history @ [UrlOpen sample_put])
   \<and> notify (sample_env\<lparr>urlopen := \<lambda>request h. Inl unreachable\<rparr>) sample_ctx sample_event [] =
     (Inr PNone, [UrlOpen sample_put])"
proof -
  let ?bad = "sample_env\<lparr>urlopen := \<lambda>request h. Inl unreachable\<rparr>"
  note same = urlopen_failure_is_swallowed
     [where env = sample_env and f = "\<lambda>request h. Inl unreachable" and ctx = sample_ctx
        and event = sample_event and h = "[]"]
  note swallowed = urlopen_failure_is_swallowed
     [where env = ?bad and ctx = sample_ctx and event = sample_event and h = "[]"]
  have s: "send_response ?bad sample_ctx sample_event ''SUCCESS'' None [] =
             (Inr PNone, [] @ [UrlOpen sample_put])"
    by (rule sample_send) simp_all
  have e: "urlopen ?bad sample_put [] = Inl unreachable" by simp
  from same have "lambda_handler ?bad sample_ctx sample_event [] =
      Some (Inr PNone, sample_history @ [UrlOpen sample_put])"
    by (simp add: sample_lambda_handler)
  moreover from swallowed s e
  have "notify ?bad sample_ctx sample_event [] = (Inr PNone, [UrlOpen sample_put])"
    by (metis append_Nil)
  ultimately show ?thesis by simp
qed

end
